theory Spec2Isabelle
  imports Complex_Main
begin

section \<open>The simulation shell of joist: data model\<close>

text \<open>
  The development embeds class \<open>Sim\<close> (the second module of
  \<^verbatim>\<open>src/js/NavigationBarScreenButton.ts\<close>, lines 249-1243): the resize action, the
  step action, the animation loop, the screen-switch listeners and the popup operations.

  JavaScript numbers are modelled as rationals: every finite value, exact arithmetic, no
  \<open>NaN\<close> and no infinities. A number is truthy iff it is not \<open>0\<close>.
  Objects are compared by identity in the source; a screen is therefore represented by an
  identifier. Calls into collaborators whose code is outside the repository (scenery nodes,
  the display, axon emitters, the pan/zoom listener) are recorded, in call order, in the
  \<open>trace\<close> field of the state.
\<close>

type_synonym screen = nat

datatype dimension2 = Dimension2 (dim_width: rat) (dim_height: rat)

datatype bounds2 = Bounds2 (minX: rat) (minY: rat) (maxX: rat) (maxY: rat)

definition bounds_width :: "bounds2 \<Rightarrow> rat" where
  "bounds_width b = maxX b - minX b"

definition bounds_height :: "bounds2 \<Rightarrow> rat" where
  "bounds_height b = maxY b - minY b"

text \<open>\<^verbatim>\<open>HomeScreenView.LAYOUT_BOUNDS\<close> (src/js/HomeScreenView.js, line 29).\<close>

definition LAYOUT_BOUNDS :: bounds2 where
  "LAYOUT_BOUNDS = Bounds2 0 0 768 504"

text \<open>
  A popup handed to \<open>showPopup\<close>: a node that may or may not implement \<open>hide\<close> and
  \<open>layout\<close>.
\<close>

record popup =
  popupId :: nat
  hasHide :: bool
  hasLayout :: bool

text \<open>The children of the top layer: the barrier rectangle and the popups shown.\<close>

datatype node = BarrierNode | PopupNode popup

fun nodeHasLayout :: "node \<Rightarrow> bool" where
  "nodeHasLayout BarrierNode = False"
| "nodeHasLayout (PopupNode p) = hasLayout p"

text \<open>
  The toolbar keeps the arguments of its last \<open>layout(scale, height)\<close> call; the width it
  reports through \<open>getDisplayedWidth\<close> is a parameter of the configuration.
\<close>

record toolbar =
  toolbarScale :: rat
  toolbarHeight :: rat

datatype error = AssertionFailed string | InvalidValue | OutsideContract string

text \<open>
  The calls the shell makes on its collaborators. \<open>ScreenActiveSet s v old vis\<close> is
  \<open>s.activeProperty.set(v)\<close>, made when the property held \<open>old\<close> and the view of \<open>s\<close>
  had visibility \<open>vis\<close>. \<open>NodeLayout n b\<close> is \<open>n.layout(b)\<close>, where \<open>b\<close> is
  \<open>None\<close> for the \<open>null\<close> the screen bounds hold before the first resize.
\<close>

datatype event =
    FrameStarted
  | FrameEnded
  | StepTimerEmit rat
  | ModelStep screen rat
  | TweenUpdate rat
  | PanZoomStep rat
  | VibrationStep rat
  | ViewStep screen rat
  | UpdateDisplay
  | MemoryMeasure
  | DimensionSet dimension2
  | NavigationBarLayout rat rat rat
  | DisplaySetSize dimension2
  | ToolbarLayout rat rat
  | ViewLayout screen bounds2
  | NodeLayout node "bounds2 option"
  | ScrollToOrigin
  | ScaleSet rat
  | BoundsSet bounds2
  | ScreenBoundsSet bounds2
  | SetTargetScale rat
  | SetTargetBounds bounds2
  | SetPanBounds bounds2
  | UpdateBackground screen
  | InterruptViewInput screen
  | InterruptRootInput
  | ScreenActiveSet screen bool bool bool
  | ViewSetVisible screen bool
  | ResetTransform
  | ModalPush popup
  | ModalRemove popup
  | TopLayerAdd popup
  | TopLayerRemove popup
  | RequestAnimationFrame
  | FuzzInputEvents
  | AnimationFrameTimerEmit rat
  | PhetioOnAnimationLoop

text \<open>
  What the sim is run with: the assertion switch (\<^verbatim>\<open>assert && assert( ... )\<close>), query
  parameters, platform flags, and the parts of each screen the shell reads
  (\<open>screen.maxDT\<close>, \<open>screen.model.step\<close>, \<open>screen.view.step\<close>).
  \<open>NAVIGATION_BAR_SIZE_height\<close> is \<^verbatim>\<open>NavigationBar.NAVIGATION_BAR_SIZE.height\<close>, a constant of
  a file that is not under src/.
\<close>

record config =
  assertEnabled :: bool
  speed :: rat
  playbackModeEnabled :: bool
  NAVIGATION_BAR_SIZE_height :: rat
  mobileSafari :: bool
  maxDT :: "screen \<Rightarrow> rat option"
  modelHasStep :: "screen \<Rightarrow> bool"
  viewHasStep :: "screen \<Rightarrow> bool"
  hasTWEEN :: bool
  supportsPanAndZoom :: bool
  hasVibrationManager :: bool
  PHET_IO_ENABLED :: bool
  isReadyForDisplay :: bool
  memoryLimit :: bool
  getDisplayedWidth :: "toolbar \<Rightarrow> rat"

record sim =
  dimensionProperty :: dimension2
  scaleProperty :: rat
  boundsProperty :: "bounds2 option"
  screenBoundsProperty :: "bounds2 option"
  frameCounter :: nat
  resizePending :: bool
  elapsedTime :: rat
  lastStepTime :: rat
  lastAnimationFrameTime :: rat
  destroyed :: bool
  activeProperty :: bool
  isSettingPhetioState :: bool
  screens :: "screen list"
  homeScreen :: "screen option"
  screenProperty :: screen
  screenActive :: "screen \<Rightarrow> bool"
  viewVisible :: "screen \<Rightarrow> bool"
  navigationBarHeight :: rat
  navigationBarY :: rat
  toolbar :: "toolbar option"
  topLayerChildren :: "node list"
  modalNodeStack :: "popup list"
  barrierVisible :: bool
  innerWidth :: rat
  innerHeight :: rat
  trace :: "event list"

definition emit :: "event \<Rightarrow> sim \<Rightarrow> sim" where
  "emit e st = st\<lparr>trace := trace st @ [e]\<rparr>"

section \<open>Resize\<close>

text \<open>
  Modelled from the spec: \<open>NavigationBar.layout\<close> (NavigationBar.js is not under src/).
  The spec gives the navigation-bar height as \<open>scale \<times> fixedBarHeight\<close>, the third argument
  of the call, so after \<open>layout(scale, width, height)\<close> the bar's height is \<open>height\<close>.
\<close>

definition navigationBar_layout :: "rat \<Rightarrow> rat \<Rightarrow> rat \<Rightarrow> sim \<Rightarrow> sim" where
  "navigationBar_layout scale width height st =
     emit (NavigationBarLayout scale width height) (st\<lparr>navigationBarHeight := height\<rparr>)"

text \<open>
  \<open>Toolbar.layout\<close> is not under src/ either; the model stores its arguments, and takes no
  re-entrant resize from the toolbar's position listener (constructor, lines 785-787).
\<close>

definition toolbar_layout :: "rat \<Rightarrow> rat \<Rightarrow> sim \<Rightarrow> sim" where
  "toolbar_layout scale height st =
     emit (ToolbarLayout scale height)
       (st\<lparr>toolbar := Some \<lparr>toolbarScale = scale, toolbarHeight = height\<rparr>\<rparr>)"

definition view_layout :: "bounds2 \<Rightarrow> screen \<Rightarrow> sim \<Rightarrow> sim" where
  "view_layout b m st = emit (ViewLayout m b) st"

definition child_layout :: "bounds2 \<Rightarrow> node \<Rightarrow> sim \<Rightarrow> sim" where
  "child_layout b child st =
     (if nodeHasLayout child then emit (NodeLayout child (Some b)) st else st)"

text \<open>The body of \<open>resizeAction\<close> (lines 422-474).\<close>

definition resizeAction :: "config \<Rightarrow> rat \<Rightarrow> rat \<Rightarrow> sim \<Rightarrow> error + sim" where
  "resizeAction cfg width height st =
     (if assertEnabled cfg \<and> \<not> (width > 0 \<and> height > 0)
      then Inl (AssertionFailed ''sim should have a nonzero area'')
      else
        let st1 = emit (DimensionSet (Dimension2 width height))
                    (st\<lparr>dimensionProperty := Dimension2 width height\<rparr>)
        in
        if width = 0 \<or> height = 0 then Inr st1
        else
          let scale = min (width / bounds_width LAYOUT_BOUNDS) (height / bounds_height LAYOUT_BOUNDS);
              navBarHeight = scale * NAVIGATION_BAR_SIZE_height cfg;
              st2 = navigationBar_layout scale width navBarHeight st1;
              st3 = st2\<lparr>navigationBarY := height - navBarHeight\<rparr>;
              st4 = emit (DisplaySetSize (Dimension2 width height)) st3;
              screenHeight = height - navigationBarHeight st4;
              st5 = (case toolbar st4 of None \<Rightarrow> st4 | Some tb \<Rightarrow> toolbar_layout scale screenHeight st4);
              screenMinX = (case toolbar st5 of None \<Rightarrow> 0 | Some tb \<Rightarrow> getDisplayedWidth cfg tb);
              availableScreenBounds = Bounds2 screenMinX 0 width screenHeight;
              st6 = fold (view_layout availableScreenBounds) (screens st5) st5;
              st7 = fold (child_layout availableScreenBounds) (topLayerChildren st6) st6;
              st8 = (if mobileSafari cfg then emit ScrollToOrigin st7 else st7);
              st9 = emit (ScaleSet scale) (st8\<lparr>scaleProperty := scale\<rparr>);
              st10 = emit (BoundsSet (Bounds2 0 0 width height))
                       (st9\<lparr>boundsProperty := Some (Bounds2 0 0 width height)\<rparr>);
              st11 = emit (ScreenBoundsSet availableScreenBounds)
                       (st10\<lparr>screenBoundsProperty := Some availableScreenBounds\<rparr>);
              st12 = emit (SetTargetScale scale) st11;
              st13 = emit (SetTargetBounds (Bounds2 0 0 width height)) st12;
              st14 = emit (SetPanBounds (Bounds2 0 0 width height)) st13
          in Inr st14)"

text \<open>\<open>resize\<close> executes the action (lines 1026-1028); \<open>resizeToWindow\<close> is lines 1020-1023.\<close>

definition resize :: "config \<Rightarrow> rat \<Rightarrow> rat \<Rightarrow> sim \<Rightarrow> error + sim" where
  "resize cfg width height st = resizeAction cfg width height st"

definition resizeToWindow :: "config \<Rightarrow> sim \<Rightarrow> error + sim" where
  "resizeToWindow cfg st =
     resize cfg (innerWidth st) (innerHeight st) (st\<lparr>resizePending := False\<rparr>)"

text \<open>The window resize listener installed by \<open>finishInit\<close> (lines 943-950).\<close>

definition resizeListener :: "config \<Rightarrow> sim \<Rightarrow> sim" where
  "resizeListener cfg st =
     (if \<not> playbackModeEnabled cfg then st\<lparr>resizePending := True\<rparr> else st)"

section \<open>Stepping\<close>

text \<open>The body of \<open>stepSimulationAction\<close> (lines 510-579).\<close>

definition stepSimulationAction :: "config \<Rightarrow> rat \<Rightarrow> sim \<Rightarrow> error + sim" where
  "stepSimulationAction cfg dt0 st =
     (let st1 = emit FrameStarted st;
          st2 = st1\<lparr>frameCounter := frameCounter st1 + 1\<rparr>;
          dt1 = dt0 * speed cfg
      in case (if resizePending st2 then resizeToWindow cfg st2 else Inr st2) of
           Inl e \<Rightarrow> Inl e
         | Inr st3 \<Rightarrow>
             let scr = screenProperty st3;
                 dt = (case maxDT cfg scr of
                         None \<Rightarrow> dt1
                       | Some m \<Rightarrow> if m \<noteq> 0 then min dt1 m else dt1);
                 st4 = st3\<lparr>elapsedTime := elapsedTime st3 + dt * 1000\<rparr>;
                 st5 = emit (StepTimerEmit dt) st4;
                 st6 = (if modelHasStep cfg scr \<and> dt \<noteq> 0 then emit (ModelStep scr dt) st5 else st5);
                 st7 = (if hasTWEEN cfg then emit (TweenUpdate (elapsedTime st6)) st6 else st6);
                 st8 = (if supportsPanAndZoom cfg then emit (PanZoomStep dt) st7 else st7);
                 st9 = (if hasVibrationManager cfg then emit (VibrationStep dt) st8 else st8);
                 st10 = (if viewHasStep cfg scr then emit (ViewStep scr dt) st9 else st9);
                 st11 = (if \<not> (PHET_IO_ENABLED cfg \<and> \<not> isReadyForDisplay cfg)
                         then emit UpdateDisplay st10 else st10);
                 st12 = (if memoryLimit cfg then emit MemoryMeasure st11 else st11)
             in Inr (emit FrameEnded st12))"

definition stepSimulation :: "config \<Rightarrow> rat \<Rightarrow> sim \<Rightarrow> error + sim" where
  "stepSimulation cfg dt st = stepSimulationAction cfg dt st"

text \<open>\<open>getDT\<close> (lines 1235-1240): milliseconds in, seconds out.\<close>

definition getDT :: "rat \<Rightarrow> rat \<Rightarrow> rat" where
  "getDT lastTime currentTime =
     (if lastTime = - 1 then 1 / 60 else (currentTime - lastTime) / 1000)"

text \<open>\<open>stepOneFrame\<close> (lines 1189-1200); \<open>currentTime\<close> is the reading of \<open>Date.now()\<close>.\<close>

definition stepOneFrame :: "config \<Rightarrow> rat \<Rightarrow> sim \<Rightarrow> error + sim" where
  "stepOneFrame cfg currentTime st =
     (let dt = getDT (lastStepTime st) currentTime;
          st1 = st\<lparr>lastStepTime := currentTime\<rparr>
      in if dt > 0 then stepSimulation cfg dt st1 else Inr st1)"

text \<open>
  \<open>runAnimationLoop\<close> (lines 1160-1186). \<open>stepTime\<close> and \<open>currentTime\<close> are the two readings
  of \<open>Date.now()\<close>, the first inside \<open>stepOneFrame\<close>.
\<close>

definition runAnimationLoop :: "config \<Rightarrow> rat \<Rightarrow> rat \<Rightarrow> sim \<Rightarrow> error + sim" where
  "runAnimationLoop cfg stepTime currentTime st =
     (let st1 = (if \<not> destroyed st then emit RequestAnimationFrame st else st)
      in case (if activeProperty st1 \<and> \<not> playbackModeEnabled cfg
               then stepOneFrame cfg stepTime
                      (if frameCounter st1 > 0 then emit FuzzInputEvents st1 else st1)
               else Inr st1) of
           Inl e \<Rightarrow> Inl e
         | Inr st2 \<Rightarrow>
             let st3 = emit (AnimationFrameTimerEmit (getDT (lastAnimationFrameTime st2) currentTime)) st2;
                 st4 = st3\<lparr>lastAnimationFrameTime := currentTime\<rparr>
             in Inr (if PHET_IO_ENABLED cfg then emit PhetioOnAnimationLoop st4 else st4))"

section \<open>Switching screens\<close>

definition updateBackground :: "sim \<Rightarrow> sim" where
  "updateBackground st = emit (UpdateBackground (screenProperty st)) st"

definition screenActive_set :: "screen \<Rightarrow> bool \<Rightarrow> sim \<Rightarrow> sim" where
  "screenActive_set s v st =
     emit (ScreenActiveSet s v (screenActive st s) (viewVisible st s))
       (st\<lparr>screenActive := (screenActive st)(s := v)\<rparr>)"

definition view_setVisible :: "screen \<Rightarrow> bool \<Rightarrow> sim \<Rightarrow> sim" where
  "view_setVisible s v st =
     emit (ViewSetVisible s v) (st\<lparr>viewVisible := (viewVisible st)(s := v)\<rparr>)"

text \<open>The body of the \<open>forEach\<close> in the listener of \<open>finishInit\<close> (lines 898-910).\<close>

definition showOrHideScreen :: "screen \<Rightarrow> screen \<Rightarrow> sim \<Rightarrow> sim" where
  "showOrHideScreen currentScreen s st =
     (let visible = (s = currentScreen);
          st1 = (if visible then screenActive_set s visible st else st);
          st2 = view_setVisible s visible st1
      in if \<not> visible then screenActive_set s visible st2 else st2)"

text \<open>The listener \<open>finishInit\<close> links to the screen property (lines 897-919).\<close>

definition screenListener :: "screen \<Rightarrow> sim \<Rightarrow> sim" where
  "screenListener currentScreen st =
     (let st1 = fold (showOrHideScreen currentScreen) (screens st) st;
          st2 = updateBackground st1
      in if \<not> isSettingPhetioState st2 then emit ResetTransform st2 else st2)"

text \<open>
  Modelled from the spec: the reactive-value collaborator (axon's \<open>Property\<close>, not under
  src/). The current screen is constrained to the screen list, assigning any other value
  fails; assigning the value it already holds is not a change and notifies nobody; a
  change stores the value and notifies the listeners synchronously in subscription order.
  The listeners of the source, in that order: \<open>updateBackground\<close> (line 830), the input
  interrupt of the previous screen (line 834), the listener of \<open>finishInit\<close> (line 897).
  Listeners that files outside src/ register on the screen property (the navigation bar,
  the sound generator for screen selection) are not part of the model.
\<close>

definition screenProperty_set :: "screen \<Rightarrow> sim \<Rightarrow> error + sim" where
  "screenProperty_set newScreen st =
     (if newScreen \<notin> set (screens st) then Inl InvalidValue
      else if newScreen = screenProperty st then Inr st
      else
        let oldScreen = screenProperty st;
            st1 = st\<lparr>screenProperty := newScreen\<rparr>;
            st2 = updateBackground st1;
            st3 = emit (InterruptViewInput oldScreen) st2
        in Inr (screenListener newScreen st3))"

section \<open>Popups\<close>

text \<open>
  Modelled from the spec: \<open>BarrierRectangle\<close> (scenery-phet, not under src/) listens to the
  modal stack it is constructed with (lines 931-937); the spec makes its visibility follow
  the stack being non-empty. The listener runs at every \<open>push\<close> and \<open>remove\<close>.
\<close>

definition barrierListener :: "sim \<Rightarrow> sim" where
  "barrierListener st = st\<lparr>barrierVisible := (length (modalNodeStack st) > 0)\<rparr>"

definition modalNodeStack_push :: "popup \<Rightarrow> sim \<Rightarrow> sim" where
  "modalNodeStack_push p st =
     barrierListener (emit (ModalPush p) (st\<lparr>modalNodeStack := modalNodeStack st @ [p]\<rparr>))"

definition modalNodeStack_remove :: "popup \<Rightarrow> sim \<Rightarrow> sim" where
  "modalNodeStack_remove p st =
     barrierListener (emit (ModalRemove p) (st\<lparr>modalNodeStack := remove1 p (modalNodeStack st)\<rparr>))"

definition topLayer_hasChild :: "sim \<Rightarrow> popup \<Rightarrow> bool" where
  "topLayer_hasChild st p = (PopupNode p \<in> set (topLayerChildren st))"

text \<open>
  \<open>showPopup\<close> (lines 988-1000). With assertions off the source goes on to \<open>addChild\<close> with a
  node that is already a child, which is outside the contract of scenery's \<open>Node\<close>; the
  model stops there.
\<close>

definition showPopup :: "config \<Rightarrow> popup \<Rightarrow> bool \<Rightarrow> sim \<Rightarrow> error + sim" where
  "showPopup cfg p isModal st =
     (if assertEnabled cfg \<and> \<not> hasHide p
      then Inl (AssertionFailed ''Missing popup.hide() for showPopup'')
      else if assertEnabled cfg \<and> topLayer_hasChild st p
      then Inl (AssertionFailed ''popup already shown'')
      else
        let st1 = (if isModal then modalNodeStack_push p (emit InterruptRootInput st) else st);
            st2 = (if hasLayout p
                   then emit (NodeLayout (PopupNode p) (screenBoundsProperty st1)) st1
                   else st1)
        in if topLayer_hasChild st2 p then Inl (OutsideContract ''addChild'')
           else Inr (emit (TopLayerAdd p) (st2\<lparr>topLayerChildren := topLayerChildren st2 @ [PopupNode p]\<rparr>)))"

text \<open>
  \<open>hidePopup\<close> (lines 1008-1015). Removing what is not there is outside the contracts of
  axon's observable array and of scenery's \<open>Node\<close>; the model stops there.
\<close>

definition hidePopup :: "config \<Rightarrow> popup \<Rightarrow> bool \<Rightarrow> sim \<Rightarrow> error + sim" where
  "hidePopup cfg p isModal st =
     (if assertEnabled cfg \<and> p \<notin> set (modalNodeStack st)
      then Inl (AssertionFailed ''popup && this.modalNodeStack.includes( popup )'')
      else if assertEnabled cfg \<and> \<not> topLayer_hasChild st p
      then Inl (AssertionFailed ''popup was not shown'')
      else if isModal \<and> p \<notin> set (modalNodeStack st) then Inl (OutsideContract ''remove'')
      else
        let st1 = (if isModal then modalNodeStack_remove p st else st)
        in if \<not> topLayer_hasChild st1 p then Inl (OutsideContract ''removeChild'')
           else Inr (emit (TopLayerRemove p) (st1\<lparr>topLayerChildren := remove1 (PopupNode p) (topLayerChildren st1)\<rparr>)))"

section \<open>Auxiliary notions for stating the properties\<close>

text \<open>Several collaborator calls at once, and the calls made between two states.\<close>

definition emits :: "event list \<Rightarrow> sim \<Rightarrow> sim" where
  "emits es st = st\<lparr>trace := trace st @ es\<rparr>"

definition newEvents :: "sim \<Rightarrow> sim \<Rightarrow> event list" where
  "newEvents st st' = drop (length (trace st)) (trace st')"

fun isLayoutCall :: "event \<Rightarrow> bool" where
  "isLayoutCall (ViewLayout m b) = True"
| "isLayoutCall (NodeLayout c b) = True"
| "isLayoutCall e = False"

fun isGeometryWrite :: "event \<Rightarrow> bool" where
  "isGeometryWrite (ScaleSet s) = True"
| "isGeometryWrite (BoundsSet b) = True"
| "isGeometryWrite (ScreenBoundsSet b) = True"
| "isGeometryWrite e = False"

text \<open>The calls of one resize that is carried out, in order.\<close>

definition resizeEvents :: "config \<Rightarrow> rat \<Rightarrow> rat \<Rightarrow> sim \<Rightarrow> event list" where
  "resizeEvents cfg width height st =
     (let scale = min (width / 768) (height / 504);
          navBarHeight = scale * NAVIGATION_BAR_SIZE_height cfg;
          screenHeight = height - navBarHeight;
          screenMinX = (case toolbar st of None \<Rightarrow> 0
                        | Some t \<Rightarrow> getDisplayedWidth cfg \<lparr>toolbarScale = scale, toolbarHeight = screenHeight\<rparr>);
          b = Bounds2 screenMinX 0 width screenHeight
      in [DimensionSet (Dimension2 width height),
          NavigationBarLayout scale width navBarHeight,
          DisplaySetSize (Dimension2 width height)] @
         (case toolbar st of None \<Rightarrow> [] | Some t \<Rightarrow> [ToolbarLayout scale screenHeight]) @
         map (\<lambda>m. ViewLayout m b) (screens st) @
         map (\<lambda>c. NodeLayout c (Some b)) (filter nodeHasLayout (topLayerChildren st)) @
         (if mobileSafari cfg then [ScrollToOrigin] else []) @
         [ScaleSet scale, BoundsSet (Bounds2 0 0 width height), ScreenBoundsSet b,
          SetTargetScale scale, SetTargetBounds (Bounds2 0 0 width height),
          SetPanBounds (Bounds2 0 0 width height)])"

text \<open>
  A concrete sim for the examples: a home screen \<open>0\<close> and two content screens, no toolbar,
  a 1024 by 768 window, in the state the constructor leaves it in (no resize yet, the home
  screen selected, nothing stepped).
\<close>

definition demoConfig :: config where
  "demoConfig =
     \<lparr>assertEnabled = True, speed = 1, playbackModeEnabled = False,
      NAVIGATION_BAR_SIZE_height = 40, mobileSafari = False,
      maxDT = (\<lambda>s. Some (1 / 2)), modelHasStep = (\<lambda>s. True), viewHasStep = (\<lambda>s. True),
      hasTWEEN = False, supportsPanAndZoom = True, hasVibrationManager = False,
      PHET_IO_ENABLED = False, isReadyForDisplay = True, memoryLimit = False,
      getDisplayedWidth = (\<lambda>t. 0)\<rparr>"

definition demoSim :: sim where
  "demoSim =
     \<lparr>dimensionProperty = Dimension2 0 0, scaleProperty = 1, boundsProperty = None,
      screenBoundsProperty = None, frameCounter = 0, resizePending = True, elapsedTime = 0,
      lastStepTime = - 1, lastAnimationFrameTime = - 1, destroyed = False,
      activeProperty = True, isSettingPhetioState = False, screens = [0, 1, 2],
      homeScreen = Some 0, screenProperty = 0, screenActive = (\<lambda>s. s = 0),
      viewVisible = (\<lambda>s. s = 0), navigationBarHeight = 0, navigationBarY = 0,
      toolbar = None, topLayerChildren = [BarrierNode], modalNodeStack = [],
      barrierVisible = False, innerWidth = 1024, innerHeight = 768, trace = []\<rparr>"

text \<open>The numbers handed over by a layout call, and the calls of a screen view's layout.\<close>

fun layoutArguments :: "event \<Rightarrow> rat list" where
  "layoutArguments (NavigationBarLayout s w h) = [s, w, h]"
| "layoutArguments (ToolbarLayout s h) = [s, h]"
| "layoutArguments (ViewLayout m b) = [minX b, minY b, maxX b, maxY b]"
| "layoutArguments (NodeLayout c (Some b)) = [minX b, minY b, maxX b, maxY b]"
| "layoutArguments e = []"

fun isViewLayout :: "event \<Rightarrow> bool" where
  "isViewLayout (ViewLayout m b) = True"
| "isViewLayout e = False"

text \<open>The example sim after \<open>finishInit\<close> has fitted it to its window.\<close>

definition demoLaidOut :: sim where
  "demoLaidOut = projr (resizeToWindow demoConfig demoSim)"

text \<open>Calls of a screen's model step and of a screen's view step.\<close>

fun isModelStep :: "event \<Rightarrow> bool" where
  "isModelStep (ModelStep s dt) = True"
| "isModelStep e = False"

fun isViewStep :: "event \<Rightarrow> bool" where
  "isViewStep (ViewStep s dt) = True"
| "isViewStep e = False"

text \<open>
  The time step the action works with for a given argument: scaled by the speed, then capped
  by the \<open>maxDT\<close> of the selected screen (lines 517 and 528-530).
\<close>

definition effectiveDT :: "config \<Rightarrow> screen \<Rightarrow> rat \<Rightarrow> rat" where
  "effectiveDT cfg scr dt0 =
     (case maxDT cfg scr of
        None \<Rightarrow> dt0 * speed cfg
      | Some m \<Rightarrow> if m \<noteq> 0 then min (dt0 * speed cfg) m else dt0 * speed cfg)"

text \<open>
  The calls of one step after the pending resize, for the selected screen \<open>scr\<close>, the time
  step \<open>dt\<close> and the elapsed time \<open>elapsed\<close> reached (lines 538-578).
\<close>

definition stepEvents :: "config \<Rightarrow> screen \<Rightarrow> rat \<Rightarrow> rat \<Rightarrow> event list" where
  "stepEvents cfg scr dt elapsed =
     [StepTimerEmit dt] @
     (if modelHasStep cfg scr \<and> dt \<noteq> 0 then [ModelStep scr dt] else []) @
     (if hasTWEEN cfg then [TweenUpdate elapsed] else []) @
     (if supportsPanAndZoom cfg then [PanZoomStep dt] else []) @
     (if hasVibrationManager cfg then [VibrationStep dt] else []) @
     (if viewHasStep cfg scr then [ViewStep scr dt] else []) @
     (if \<not> (PHET_IO_ENABLED cfg \<and> \<not> isReadyForDisplay cfg) then [UpdateDisplay] else []) @
     (if memoryLimit cfg then [MemoryMeasure] else []) @
     [FrameEnded]"

text \<open>A sequence of \<open>stepSimulation\<close> calls; an error ends it, as the exception would.\<close>

fun stepAll :: "config \<Rightarrow> rat list \<Rightarrow> sim \<Rightarrow> error + sim" where
  "stepAll cfg [] st = Inr st"
| "stepAll cfg (dt # dts) st =
     (case stepSimulation cfg dt st of Inl e \<Rightarrow> Inl e | Inr st' \<Rightarrow> stepAll cfg dts st')"

text \<open>
  The two halves of \<open>stepSimulationAction\<close>, before and after the pending resize
  (lines 511-514 and 525-578).
\<close>

definition stepStart :: "sim \<Rightarrow> sim" where
  "stepStart st =
     (let st1 = emit FrameStarted st
      in st1\<lparr>frameCounter := frameCounter st1 + 1\<rparr>)"

definition stepFinish :: "config \<Rightarrow> rat \<Rightarrow> sim \<Rightarrow> sim" where
  "stepFinish cfg dt0 st3 =
     (let dt1 = dt0 * speed cfg;
          scr = screenProperty st3;
          dt = (case maxDT cfg scr of
                  None \<Rightarrow> dt1
                | Some m \<Rightarrow> if m \<noteq> 0 then min dt1 m else dt1);
          st4 = st3\<lparr>elapsedTime := elapsedTime st3 + dt * 1000\<rparr>;
          st5 = emit (StepTimerEmit dt) st4;
          st6 = (if modelHasStep cfg scr \<and> dt \<noteq> 0 then emit (ModelStep scr dt) st5 else st5);
          st7 = (if hasTWEEN cfg then emit (TweenUpdate (elapsedTime st6)) st6 else st6);
          st8 = (if supportsPanAndZoom cfg then emit (PanZoomStep dt) st7 else st7);
          st9 = (if hasVibrationManager cfg then emit (VibrationStep dt) st8 else st8);
          st10 = (if viewHasStep cfg scr then emit (ViewStep scr dt) st9 else st9);
          st11 = (if \<not> (PHET_IO_ENABLED cfg \<and> \<not> isReadyForDisplay cfg)
                  then emit UpdateDisplay st10 else st10);
          st12 = (if memoryLimit cfg then emit MemoryMeasure st11 else st11)
      in emit FrameEnded st12)"

text \<open>
  The calls the screen listener makes for one screen, and for a list of screens in turn
  (lines 898-910).
\<close>

definition screenSwitchEvents :: "screen \<Rightarrow> screen \<Rightarrow> sim \<Rightarrow> event list" where
  "screenSwitchEvents currentScreen s st =
     (if s = currentScreen
      then [ScreenActiveSet s True (screenActive st s) (viewVisible st s), ViewSetVisible s True]
      else [ViewSetVisible s False, ScreenActiveSet s False (screenActive st s) False])"

fun switchEventsAll :: "screen \<Rightarrow> screen list \<Rightarrow> sim \<Rightarrow> event list" where
  "switchEventsAll currentScreen [] st = []"
| "switchEventsAll currentScreen (s # ss) st =
     screenSwitchEvents currentScreen s st @
     switchEventsAll currentScreen ss (showOrHideScreen currentScreen s st)"

text \<open>A write of a screen's active flag that changes it while the screen's view is visible.\<close>

fun activeChangeWhileVisible :: "event \<Rightarrow> bool" where
  "activeChangeWhileVisible (ScreenActiveSet s v old vis) = (v \<noteq> old \<and> vis)"
| "activeChangeWhileVisible e = False"

text \<open>
  Both calls occur, and \<open>b\<close> does not occur before the first occurrence of \<open>a\<close>.
\<close>

definition occursBefore :: "event \<Rightarrow> event \<Rightarrow> event list \<Rightarrow> bool" where
  "occursBefore a b evs =
     (a \<in> set evs \<and> b \<in> set evs \<and> b \<notin> set (takeWhile (\<lambda>e. e \<noteq> a) evs))"

text \<open>A sequence of \<open>showPopup\<close> and \<open>hidePopup\<close> calls; an error ends it.\<close>

datatype popupCall = Show popup bool | Hide popup bool

fun runPopupCalls :: "config \<Rightarrow> popupCall list \<Rightarrow> sim \<Rightarrow> error + sim" where
  "runPopupCalls cfg [] st = Inr st"
| "runPopupCalls cfg (Show p isModal # calls) st =
     (case showPopup cfg p isModal st of
        Inl e \<Rightarrow> Inl e
      | Inr st' \<Rightarrow> runPopupCalls cfg calls st')"
| "runPopupCalls cfg (Hide p isModal # calls) st =
     (case hidePopup cfg p isModal st of
        Inl e \<Rightarrow> Inl e
      | Inr st' \<Rightarrow> runPopupCalls cfg calls st')"

text \<open>Two popups for the examples: a dialog with a layout method and a menu without.\<close>

definition popupA :: popup where
  "popupA = \<lparr>popupId = 1, hasHide = True, hasLayout = True\<rparr>"

definition popupB :: popup where
  "popupB = \<lparr>popupId = 2, hasHide = True, hasLayout = False\<rparr>"

section \<open>Basic facts\<close>

lemma emit_simps [simp]:
  "trace (emit e st) = trace st @ [e]"
  "dimensionProperty (emit e st) = dimensionProperty st"
  "scaleProperty (emit e st) = scaleProperty st"
  "boundsProperty (emit e st) = boundsProperty st"
  "screenBoundsProperty (emit e st) = screenBoundsProperty st"
  "frameCounter (emit e st) = frameCounter st"
  "resizePending (emit e st) = resizePending st"
  "elapsedTime (emit e st) = elapsedTime st"
  "lastStepTime (emit e st) = lastStepTime st"
  "lastAnimationFrameTime (emit e st) = lastAnimationFrameTime st"
  "destroyed (emit e st) = destroyed st"
  "activeProperty (emit e st) = activeProperty st"
  "isSettingPhetioState (emit e st) = isSettingPhetioState st"
  "screens (emit e st) = screens st"
  "homeScreen (emit e st) = homeScreen st"
  "screenProperty (emit e st) = screenProperty st"
  "screenActive (emit e st) = screenActive st"
  "viewVisible (emit e st) = viewVisible st"
  "navigationBarHeight (emit e st) = navigationBarHeight st"
  "navigationBarY (emit e st) = navigationBarY st"
  "toolbar (emit e st) = toolbar st"
  "topLayerChildren (emit e st) = topLayerChildren st"
  "modalNodeStack (emit e st) = modalNodeStack st"
  "barrierVisible (emit e st) = barrierVisible st"
  "innerWidth (emit e st) = innerWidth st"
  "innerHeight (emit e st) = innerHeight st"
  by (simp_all add: emit_def)

lemma emits_simps [simp]:
  "trace (emits es st) = trace st @ es"
  "dimensionProperty (emits es st) = dimensionProperty st"
  "scaleProperty (emits es st) = scaleProperty st"
  "boundsProperty (emits es st) = boundsProperty st"
  "screenBoundsProperty (emits es st) = screenBoundsProperty st"
  "frameCounter (emits es st) = frameCounter st"
  "resizePending (emits es st) = resizePending st"
  "elapsedTime (emits es st) = elapsedTime st"
  "lastStepTime (emits es st) = lastStepTime st"
  "lastAnimationFrameTime (emits es st) = lastAnimationFrameTime st"
  "destroyed (emits es st) = destroyed st"
  "activeProperty (emits es st) = activeProperty st"
  "isSettingPhetioState (emits es st) = isSettingPhetioState st"
  "screens (emits es st) = screens st"
  "homeScreen (emits es st) = homeScreen st"
  "screenProperty (emits es st) = screenProperty st"
  "screenActive (emits es st) = screenActive st"
  "viewVisible (emits es st) = viewVisible st"
  "navigationBarHeight (emits es st) = navigationBarHeight st"
  "navigationBarY (emits es st) = navigationBarY st"
  "toolbar (emits es st) = toolbar st"
  "topLayerChildren (emits es st) = topLayerChildren st"
  "modalNodeStack (emits es st) = modalNodeStack st"
  "barrierVisible (emits es st) = barrierVisible st"
  "innerWidth (emits es st) = innerWidth st"
  "innerHeight (emits es st) = innerHeight st"
  by (simp_all add: emits_def)

lemma fold_view_layout:
  "fold (view_layout b) ms st = emits (map (\<lambda>m. ViewLayout m b) ms) st"
  by (induction ms arbitrary: st) (simp_all add: view_layout_def emit_def emits_def)

lemma fold_child_layout:
  "fold (child_layout b) cs st = emits (map (\<lambda>c. NodeLayout c (Some b)) (filter nodeHasLayout cs)) st"
  by (induction cs arbitrary: st) (simp_all add: child_layout_def emit_def emits_def)

lemma resizeAction_valid:
  assumes "width \<noteq> 0" "height \<noteq> 0" "assertEnabled cfg \<longrightarrow> 0 < width \<and> 0 < height"
  shows "\<exists>st'. resizeAction cfg width height st = Inr st' \<and>
     trace st' = trace st @ resizeEvents cfg width height st \<and>
     scaleProperty st' = min (width / 768) (height / 504) \<and>
     navigationBarHeight st' = min (width / 768) (height / 504) * NAVIGATION_BAR_SIZE_height cfg \<and>
     navigationBarY st' = height - min (width / 768) (height / 504) * NAVIGATION_BAR_SIZE_height cfg \<and>
     toolbar st' = (case toolbar st of None \<Rightarrow> None
        | Some t \<Rightarrow> Some \<lparr>toolbarScale = min (width / 768) (height / 504),
             toolbarHeight = height - min (width / 768) (height / 504) * NAVIGATION_BAR_SIZE_height cfg\<rparr>) \<and>
     dimensionProperty st' = Dimension2 width height \<and>
     boundsProperty st' = Some (Bounds2 0 0 width height) \<and>
     screenBoundsProperty st' =
       Some (Bounds2 (case toolbar st' of None \<Rightarrow> 0 | Some t \<Rightarrow> getDisplayedWidth cfg t) 0 width
               (height - min (width / 768) (height / 504) * NAVIGATION_BAR_SIZE_height cfg))"
  using assms
  by (cases "toolbar st")
     (simp_all add: resizeAction_def resizeEvents_def Let_def navigationBar_layout_def toolbar_layout_def
       fold_view_layout fold_child_layout LAYOUT_BOUNDS_def bounds_width_def bounds_height_def)


lemma takeWhile_ViewLayout [simp]:
  "takeWhile (Not \<circ> isGeometryWrite) (map (\<lambda>m. ViewLayout m b) ms @ ys) =
     map (\<lambda>m. ViewLayout m b) ms @ takeWhile (Not \<circ> isGeometryWrite) ys"
  by (induction ms) simp_all

lemma takeWhile_NodeLayout [simp]:
  "takeWhile (Not \<circ> isGeometryWrite) (map (\<lambda>c. NodeLayout c b) cs @ ys) =
     map (\<lambda>c. NodeLayout c b) cs @ takeWhile (Not \<circ> isGeometryWrite) ys"
  by (induction cs) simp_all

lemma dropWhile_ViewLayout [simp]:
  "dropWhile (Not \<circ> isGeometryWrite) (map (\<lambda>m. ViewLayout m b) ms @ ys) =
     dropWhile (Not \<circ> isGeometryWrite) ys"
  by (induction ms) simp_all

lemma dropWhile_NodeLayout [simp]:
  "dropWhile (Not \<circ> isGeometryWrite) (map (\<lambda>c. NodeLayout c b) cs @ ys) =
     dropWhile (Not \<circ> isGeometryWrite) ys"
  by (induction cs) simp_all

lemma filter_write_ViewLayout [simp]:
  "filter isGeometryWrite (map (\<lambda>m. ViewLayout m b) ms) = []"
  by (induction ms) simp_all

lemma filter_write_NodeLayout [simp]:
  "filter isGeometryWrite (map (\<lambda>c. NodeLayout c b) cs) = []"
  by (induction cs) simp_all

lemma filter_layout_ViewLayout [simp]:
  "filter isLayoutCall (map (\<lambda>m. ViewLayout m b) ms) = map (\<lambda>m. ViewLayout m b) ms"
  by (induction ms) simp_all

lemma filter_layout_NodeLayout [simp]:
  "filter isLayoutCall (map (\<lambda>c. NodeLayout c b) cs) = map (\<lambda>c. NodeLayout c b) cs"
  by (induction cs) simp_all

lemma resizeEvents_before:
  "takeWhile (Not \<circ> isGeometryWrite) (resizeEvents cfg width height st) =
     (let scale = min (width / 768) (height / 504);
          navBarHeight = scale * NAVIGATION_BAR_SIZE_height cfg;
          screenHeight = height - navBarHeight;
          screenMinX = (case toolbar st of None \<Rightarrow> 0
                        | Some t \<Rightarrow> getDisplayedWidth cfg \<lparr>toolbarScale = scale, toolbarHeight = screenHeight\<rparr>);
          b = Bounds2 screenMinX 0 width screenHeight
      in [DimensionSet (Dimension2 width height),
          NavigationBarLayout scale width navBarHeight,
          DisplaySetSize (Dimension2 width height)] @
         (case toolbar st of None \<Rightarrow> [] | Some t \<Rightarrow> [ToolbarLayout scale screenHeight]) @
         map (\<lambda>m. ViewLayout m b) (screens st) @
         map (\<lambda>c. NodeLayout c (Some b)) (filter nodeHasLayout (topLayerChildren st)) @
         (if mobileSafari cfg then [ScrollToOrigin] else []))"
  by (cases "toolbar st") (auto simp add: resizeEvents_def Let_def)

lemma resizeEvents_after:
  "dropWhile (Not \<circ> isGeometryWrite) (resizeEvents cfg width height st) =
     (let scale = min (width / 768) (height / 504);
          navBarHeight = scale * NAVIGATION_BAR_SIZE_height cfg;
          screenHeight = height - navBarHeight;
          screenMinX = (case toolbar st of None \<Rightarrow> 0
                        | Some t \<Rightarrow> getDisplayedWidth cfg \<lparr>toolbarScale = scale, toolbarHeight = screenHeight\<rparr>);
          b = Bounds2 screenMinX 0 width screenHeight
      in [ScaleSet scale, BoundsSet (Bounds2 0 0 width height), ScreenBoundsSet b,
          SetTargetScale scale, SetTargetBounds (Bounds2 0 0 width height),
          SetPanBounds (Bounds2 0 0 width height)])"
  by (cases "toolbar st") (auto simp add: resizeEvents_def Let_def)

lemma resizeEvents_writes:
  "filter isGeometryWrite (resizeEvents cfg width height st) =
     (let scale = min (width / 768) (height / 504);
          navBarHeight = scale * NAVIGATION_BAR_SIZE_height cfg;
          screenHeight = height - navBarHeight;
          screenMinX = (case toolbar st of None \<Rightarrow> 0
                        | Some t \<Rightarrow> getDisplayedWidth cfg \<lparr>toolbarScale = scale, toolbarHeight = screenHeight\<rparr>);
          b = Bounds2 screenMinX 0 width screenHeight
      in [ScaleSet scale, BoundsSet (Bounds2 0 0 width height), ScreenBoundsSet b])"
  by (cases "toolbar st") (auto simp add: resizeEvents_def Let_def)

lemma resizeEvents_layouts:
  "filter isLayoutCall (resizeEvents cfg width height st) =
     (let scale = min (width / 768) (height / 504);
          navBarHeight = scale * NAVIGATION_BAR_SIZE_height cfg;
          screenHeight = height - navBarHeight;
          screenMinX = (case toolbar st of None \<Rightarrow> 0
                        | Some t \<Rightarrow> getDisplayedWidth cfg \<lparr>toolbarScale = scale, toolbarHeight = screenHeight\<rparr>);
          b = Bounds2 screenMinX 0 width screenHeight
      in map (\<lambda>m. ViewLayout m b) (screens st) @
         map (\<lambda>c. NodeLayout c (Some b)) (filter nodeHasLayout (topLayerChildren st)))"
  by (cases "toolbar st") (auto simp add: resizeEvents_def Let_def)


lemma resizeAction_zero:
  assumes "width = 0 \<or> height = 0" and "\<not> assertEnabled cfg"
  shows "resizeAction cfg width height st =
     Inr (emit (DimensionSet (Dimension2 width height))
            (st\<lparr>dimensionProperty := Dimension2 width height\<rparr>))"
  using assms by (auto simp add: resizeAction_def Let_def)

lemma resizeAction_assert:
  assumes "width \<le> 0 \<or> height \<le> 0" and "assertEnabled cfg"
  shows "resizeAction cfg width height st = Inl (AssertionFailed ''sim should have a nonzero area'')"
  using assms by (auto simp add: resizeAction_def)

lemma resizeAction_valid_frame:
  assumes "width \<noteq> 0" "height \<noteq> 0" "assertEnabled cfg \<longrightarrow> 0 < width \<and> 0 < height"
  shows "\<exists>st'. resizeAction cfg width height st = Inr st' \<and>
     trace st' = trace st @ resizeEvents cfg width height st \<and>
     frameCounter st' = frameCounter st \<and> resizePending st' = resizePending st \<and>
     elapsedTime st' = elapsedTime st \<and> lastStepTime st' = lastStepTime st \<and>
     screens st' = screens st \<and> screenProperty st' = screenProperty st \<and>
     dimensionProperty st' = Dimension2 width height \<and>
     topLayerChildren st' = topLayerChildren st \<and> modalNodeStack st' = modalNodeStack st \<and>
     barrierVisible st' = barrierVisible st"
  using assms
  by (cases "toolbar st")
     (simp_all add: resizeAction_def resizeEvents_def Let_def navigationBar_layout_def toolbar_layout_def
       fold_view_layout fold_child_layout LAYOUT_BOUNDS_def bounds_width_def bounds_height_def)

lemma demoLaidOut_fields:
  "resizeToWindow demoConfig demoSim = Inr demoLaidOut"
  "dimensionProperty demoLaidOut = Dimension2 1024 768"
  "scaleProperty demoLaidOut = 4 / 3"
  "boundsProperty demoLaidOut = Some (Bounds2 0 0 1024 768)"
  "screenBoundsProperty demoLaidOut = Some (Bounds2 0 0 1024 (2144 / 3))"
  "resizePending demoLaidOut = False"
  "frameCounter demoLaidOut = 0"
  "elapsedTime demoLaidOut = 0"
  "screenProperty demoLaidOut = 0"
  "topLayerChildren demoLaidOut = [BarrierNode]"
  "modalNodeStack demoLaidOut = []"
  "barrierVisible demoLaidOut = False"
proof -
  have w: "innerWidth demoSim = 1024" "innerHeight demoSim = 768" "toolbar demoSim = None"
    by (simp_all add: demoSim_def)
  have c: "assertEnabled demoConfig" "NAVIGATION_BAR_SIZE_height demoConfig = 40"
    by (simp_all add: demoConfig_def)
  have t: "toolbar (demoSim\<lparr>resizePending := False\<rparr>) = None"
    by (simp add: demoSim_def)
  obtain st' where r: "resizeAction demoConfig 1024 768 (demoSim\<lparr>resizePending := False\<rparr>) = Inr st'"
    and f: "scaleProperty st' = min (1024 / 768) (768 / 504)"
      "dimensionProperty st' = Dimension2 1024 768"
      "boundsProperty st' = Some (Bounds2 0 0 1024 768)"
      "toolbar st' = (case toolbar (demoSim\<lparr>resizePending := False\<rparr>) of None \<Rightarrow> None
        | Some t \<Rightarrow> Some \<lparr>toolbarScale = min (1024 / 768) (768 / 504),
             toolbarHeight = 768 - min (1024 / 768) (768 / 504) * NAVIGATION_BAR_SIZE_height demoConfig\<rparr>)"
      "screenBoundsProperty st' =
       Some (Bounds2 (case toolbar st' of None \<Rightarrow> 0 | Some t \<Rightarrow> getDisplayedWidth demoConfig t) 0 1024
               (768 - min (1024 / 768) (768 / 504) * NAVIGATION_BAR_SIZE_height demoConfig))"
    using resizeAction_valid [of 1024 768 demoConfig "demoSim\<lparr>resizePending := False\<rparr>"] by auto
  obtain st'' where r': "resizeAction demoConfig 1024 768 (demoSim\<lparr>resizePending := False\<rparr>) = Inr st''"
    and g: "frameCounter st'' = frameCounter (demoSim\<lparr>resizePending := False\<rparr>)"
      "resizePending st'' = resizePending (demoSim\<lparr>resizePending := False\<rparr>)"
      "elapsedTime st'' = elapsedTime (demoSim\<lparr>resizePending := False\<rparr>)"
      "screenProperty st'' = screenProperty (demoSim\<lparr>resizePending := False\<rparr>)"
      "topLayerChildren st'' = topLayerChildren (demoSim\<lparr>resizePending := False\<rparr>)"
      "modalNodeStack st'' = modalNodeStack (demoSim\<lparr>resizePending := False\<rparr>)"
      "barrierVisible st'' = barrierVisible (demoSim\<lparr>resizePending := False\<rparr>)"
    using resizeAction_valid_frame [of 1024 768 demoConfig "demoSim\<lparr>resizePending := False\<rparr>"] by auto
  have e: "st'' = st'" using r r' by simp
  have d: "demoLaidOut = st'"
    by (simp add: demoLaidOut_def resizeToWindow_def resize_def w r)
  show "resizeToWindow demoConfig demoSim = Inr demoLaidOut"
    by (simp add: d resizeToWindow_def resize_def w r)
  show "dimensionProperty demoLaidOut = Dimension2 1024 768" by (simp add: d f)
  show "scaleProperty demoLaidOut = 4 / 3" by (simp add: d f)
  show "boundsProperty demoLaidOut = Some (Bounds2 0 0 1024 768)" by (simp add: d f)
  show "screenBoundsProperty demoLaidOut = Some (Bounds2 0 0 1024 (2144 / 3))"
    using f(4,5) by (simp add: d t c)
  show "resizePending demoLaidOut = False" using g e by (simp add: d)
  show "frameCounter demoLaidOut = 0" using g e by (simp add: d demoSim_def)
  show "elapsedTime demoLaidOut = 0" using g e by (simp add: d demoSim_def)
  show "screenProperty demoLaidOut = 0" using g e by (simp add: d demoSim_def)
  show "topLayerChildren demoLaidOut = [BarrierNode]" using g e by (simp add: d demoSim_def)
  show "modalNodeStack demoLaidOut = []" using g e by (simp add: d demoSim_def)
  show "barrierVisible demoLaidOut = False" using g e by (simp add: d demoSim_def)
qed

lemma if_emit:
  "(if c then emit e st else st) = emits (if c then [e] else []) st"
  by (simp add: emit_def emits_def)

lemma filter_step_resizeEvents:
  "filter isModelStep (resizeEvents cfg width height st) = []"
  "filter isViewStep (resizeEvents cfg width height st) = []"
  by (cases "toolbar st"; simp add: resizeEvents_def Let_def filter_empty_conv image_iff)+

lemma filter_step_stepEvents:
  "filter isModelStep (stepEvents cfg scr dt elapsed) =
     (if modelHasStep cfg scr \<and> dt \<noteq> 0 then [ModelStep scr dt] else [])"
  "filter isViewStep (stepEvents cfg scr dt elapsed) =
     (if viewHasStep cfg scr then [ViewStep scr dt] else [])"
  by (simp_all add: stepEvents_def)

lemma stepSimulationAction_unfold:
  "stepSimulationAction cfg dt0 st =
     (case (if resizePending (stepStart st) then resizeToWindow cfg (stepStart st)
            else Inr (stepStart st)) of
        Inl e \<Rightarrow> Inl e
      | Inr st3 \<Rightarrow> Inr (stepFinish cfg dt0 st3))"
  unfolding stepSimulationAction_def stepStart_def stepFinish_def Let_def
  by (rule refl)

lemma stepStart_fields:
  "trace (stepStart st) = trace st @ [FrameStarted]"
  "frameCounter (stepStart st) = frameCounter st + 1"
  "elapsedTime (stepStart st) = elapsedTime st"
  "screenProperty (stepStart st) = screenProperty st"
  "resizePending (stepStart st) = resizePending st"
  "dimensionProperty (stepStart st) = dimensionProperty st"
  "toolbar (stepStart st) = toolbar st"
  "screens (stepStart st) = screens st"
  "topLayerChildren (stepStart st) = topLayerChildren st"
  "innerWidth (stepStart st) = innerWidth st"
  "innerHeight (stepStart st) = innerHeight st"
  by (simp_all add: stepStart_def)

lemma stepFinish_fields:
  "trace (stepFinish cfg dt0 st) = trace st @
     stepEvents cfg (screenProperty st) (effectiveDT cfg (screenProperty st) dt0)
       (elapsedTime st + effectiveDT cfg (screenProperty st) dt0 * 1000)"
  "frameCounter (stepFinish cfg dt0 st) = frameCounter st"
  "elapsedTime (stepFinish cfg dt0 st) =
     elapsedTime st + effectiveDT cfg (screenProperty st) dt0 * 1000"
  "screenProperty (stepFinish cfg dt0 st) = screenProperty st"
  "resizePending (stepFinish cfg dt0 st) = resizePending st"
  "dimensionProperty (stepFinish cfg dt0 st) = dimensionProperty st"
  by (simp_all add: stepFinish_def Let_def if_emit stepEvents_def effectiveDT_def
        split: option.split)

text \<open>A step without a pending resize.\<close>

lemma stepSimulationAction_plain:
  assumes "\<not> resizePending st"
  shows "\<exists>st'. stepSimulationAction cfg dt0 st = Inr st' \<and>
     trace st' = trace st @ FrameStarted #
       stepEvents cfg (screenProperty st) (effectiveDT cfg (screenProperty st) dt0)
         (elapsedTime st + effectiveDT cfg (screenProperty st) dt0 * 1000) \<and>
     frameCounter st' = frameCounter st + 1 \<and>
     elapsedTime st' = elapsedTime st + effectiveDT cfg (screenProperty st) dt0 * 1000 \<and>
     screenProperty st' = screenProperty st \<and>
     resizePending st' = False \<and>
     dimensionProperty st' = dimensionProperty st"
  using assms
  by (simp add: stepSimulationAction_unfold stepStart_fields stepFinish_fields)

lemma resizeEvents_cong:
  assumes "toolbar a = toolbar b" "screens a = screens b" "topLayerChildren a = topLayerChildren b"
  shows "resizeEvents cfg width height a = resizeEvents cfg width height b"
  using assms by (simp add: resizeEvents_def)

text \<open>A step that begins with a pending resize to a window of non-zero size.\<close>

lemma stepSimulationAction_pending:
  assumes "resizePending st" "innerWidth st \<noteq> 0" "innerHeight st \<noteq> 0"
    "assertEnabled cfg \<longrightarrow> 0 < innerWidth st \<and> 0 < innerHeight st"
  shows "\<exists>st'. stepSimulationAction cfg dt0 st = Inr st' \<and>
     trace st' = trace st @ FrameStarted #
       resizeEvents cfg (innerWidth st) (innerHeight st) st @
       stepEvents cfg (screenProperty st) (effectiveDT cfg (screenProperty st) dt0)
         (elapsedTime st + effectiveDT cfg (screenProperty st) dt0 * 1000) \<and>
     frameCounter st' = frameCounter st + 1 \<and>
     elapsedTime st' = elapsedTime st + effectiveDT cfg (screenProperty st) dt0 * 1000 \<and>
     screenProperty st' = screenProperty st \<and>
     resizePending st' = False \<and>
     dimensionProperty st' = Dimension2 (innerWidth st) (innerHeight st)"
proof -
  define st2 where "st2 = (stepStart st)\<lparr>resizePending := False\<rparr>"
  have f2: "trace st2 = trace st @ [FrameStarted]" "frameCounter st2 = frameCounter st + 1"
    "elapsedTime st2 = elapsedTime st" "screenProperty st2 = screenProperty st"
    "resizePending st2 = False" "toolbar st2 = toolbar st" "screens st2 = screens st"
    "topLayerChildren st2 = topLayerChildren st"
    by (simp_all add: st2_def stepStart_fields)
  obtain st3 where r: "resizeAction cfg (innerWidth st) (innerHeight st) st2 = Inr st3"
    and f3: "trace st3 = trace st2 @ resizeEvents cfg (innerWidth st) (innerHeight st) st2"
      "frameCounter st3 = frameCounter st2" "resizePending st3 = resizePending st2"
      "elapsedTime st3 = elapsedTime st2" "screenProperty st3 = screenProperty st2"
      "dimensionProperty st3 = Dimension2 (innerWidth st) (innerHeight st)"
    using resizeAction_valid_frame [of "innerWidth st" "innerHeight st" cfg st2] assms by auto
  have e: "resizeEvents cfg (innerWidth st) (innerHeight st) st2 =
      resizeEvents cfg (innerWidth st) (innerHeight st) st"
    by (rule resizeEvents_cong) (simp_all add: f2)
  have u: "resizeToWindow cfg (stepStart st) = Inr st3"
    using r by (simp add: resizeToWindow_def resize_def st2_def stepStart_fields)
  show ?thesis
    using assms(1) f2 f3 e
    by (simp add: stepSimulationAction_unfold u stepStart_fields stepFinish_fields)
qed

text \<open>A step that begins with a pending resize to a window of zero width or height.\<close>

lemma stepSimulationAction_pending_zero:
  assumes "resizePending st" "innerWidth st = 0 \<or> innerHeight st = 0" "\<not> assertEnabled cfg"
  shows "\<exists>st'. stepSimulationAction cfg dt0 st = Inr st' \<and>
     trace st' = trace st @ FrameStarted #
       DimensionSet (Dimension2 (innerWidth st) (innerHeight st)) #
       stepEvents cfg (screenProperty st) (effectiveDT cfg (screenProperty st) dt0)
         (elapsedTime st + effectiveDT cfg (screenProperty st) dt0 * 1000) \<and>
     frameCounter st' = frameCounter st + 1 \<and>
     elapsedTime st' = elapsedTime st + effectiveDT cfg (screenProperty st) dt0 * 1000 \<and>
     screenProperty st' = screenProperty st \<and>
     resizePending st' = False"
proof -
  have u: "resizeToWindow cfg (stepStart st) =
     Inr (emit (DimensionSet (Dimension2 (innerWidth st) (innerHeight st)))
            ((stepStart st)\<lparr>resizePending := False,
               dimensionProperty := Dimension2 (innerWidth st) (innerHeight st)\<rparr>))"
    using assms(2,3)
    by (simp add: resizeToWindow_def resize_def resizeAction_zero stepStart_fields)
  show ?thesis
    using assms(1)
    by (simp add: stepSimulationAction_unfold u stepStart_fields stepFinish_fields)
qed

text \<open>Every step that does not fail on its resize.\<close>

lemma stepSimulationAction_general:
  assumes "assertEnabled cfg \<and> resizePending st \<longrightarrow> 0 < innerWidth st \<and> 0 < innerHeight st"
  shows "\<exists>st' evs. stepSimulationAction cfg dt0 st = Inr st' \<and>
     trace st' = trace st @ evs \<and>
     filter isModelStep evs =
       (if modelHasStep cfg (screenProperty st) \<and> effectiveDT cfg (screenProperty st) dt0 \<noteq> 0
        then [ModelStep (screenProperty st) (effectiveDT cfg (screenProperty st) dt0)] else []) \<and>
     filter isViewStep evs =
       (if viewHasStep cfg (screenProperty st)
        then [ViewStep (screenProperty st) (effectiveDT cfg (screenProperty st) dt0)] else []) \<and>
     frameCounter st' = frameCounter st + 1 \<and>
     elapsedTime st' = elapsedTime st + effectiveDT cfg (screenProperty st) dt0 * 1000 \<and>
     screenProperty st' = screenProperty st \<and>
     resizePending st' = False"
proof (cases "resizePending st")
  case False
  then show ?thesis
    using stepSimulationAction_plain [of st cfg dt0]
    by (fastforce simp add: filter_step_stepEvents)
next
  case True
  show ?thesis
  proof (cases "innerWidth st = 0 \<or> innerHeight st = 0")
    case zero: True
    with True assms have "\<not> assertEnabled cfg" by auto
    with True zero show ?thesis
      using stepSimulationAction_pending_zero [of st cfg dt0]
      by (fastforce simp add: filter_step_stepEvents)
  next
    case nonzero: False
    with True assms show ?thesis
      using stepSimulationAction_pending [of st cfg dt0]
      by (fastforce simp add: filter_step_stepEvents filter_step_resizeEvents)
  qed
qed

lemma stepAll_general:
  assumes "assertEnabled cfg \<and> resizePending st \<longrightarrow> 0 < innerWidth st \<and> 0 < innerHeight st"
  shows "\<exists>st' evs. stepAll cfg dts st = Inr st' \<and>
     trace st' = trace st @ evs \<and>
     frameCounter st' = frameCounter st + length dts \<and>
     elapsedTime st' =
       elapsedTime st + 1000 * sum_list (map (effectiveDT cfg (screenProperty st)) dts) \<and>
     screenProperty st' = screenProperty st \<and>
     filter isModelStep evs =
       (if modelHasStep cfg (screenProperty st)
        then map (ModelStep (screenProperty st))
               (filter (\<lambda>d. d \<noteq> 0) (map (effectiveDT cfg (screenProperty st)) dts))
        else []) \<and>
     filter isViewStep evs =
       (if viewHasStep cfg (screenProperty st)
        then map (ViewStep (screenProperty st)) (map (effectiveDT cfg (screenProperty st)) dts)
        else [])"
  using assms
proof (induction dts arbitrary: st)
  case Nil
  show ?case by simp
next
  case (Cons dt dts)
  obtain st1 evs1 where s: "stepSimulationAction cfg dt st = Inr st1"
    and t1: "trace st1 = trace st @ evs1"
    and m1: "filter isModelStep evs1 =
       (if modelHasStep cfg (screenProperty st) \<and> effectiveDT cfg (screenProperty st) dt \<noteq> 0
        then [ModelStep (screenProperty st) (effectiveDT cfg (screenProperty st) dt)] else [])"
    and v1: "filter isViewStep evs1 =
       (if viewHasStep cfg (screenProperty st)
        then [ViewStep (screenProperty st) (effectiveDT cfg (screenProperty st) dt)] else [])"
    and c1: "frameCounter st1 = frameCounter st + 1"
    and e1: "elapsedTime st1 = elapsedTime st + effectiveDT cfg (screenProperty st) dt * 1000"
    and p1: "screenProperty st1 = screenProperty st"
    and r1: "resizePending st1 = False"
    using stepSimulationAction_general [OF Cons.prems, of dt] by blast
  have "assertEnabled cfg \<and> resizePending st1 \<longrightarrow> 0 < innerWidth st1 \<and> 0 < innerHeight st1"
    by (simp add: r1)
  from Cons.IH [OF this]
  obtain st' evs where a: "stepAll cfg dts st1 = Inr st'"
    and t: "trace st' = trace st1 @ evs"
    and c: "frameCounter st' = frameCounter st1 + length dts"
    and e: "elapsedTime st' =
       elapsedTime st1 + 1000 * sum_list (map (effectiveDT cfg (screenProperty st1)) dts)"
    and p: "screenProperty st' = screenProperty st1"
    and m: "filter isModelStep evs =
       (if modelHasStep cfg (screenProperty st1)
        then map (ModelStep (screenProperty st1))
               (filter (\<lambda>d. d \<noteq> 0) (map (effectiveDT cfg (screenProperty st1)) dts))
        else [])"
    and v: "filter isViewStep evs =
       (if viewHasStep cfg (screenProperty st1)
        then map (ViewStep (screenProperty st1)) (map (effectiveDT cfg (screenProperty st1)) dts)
        else [])"
    by blast
  have "stepAll cfg (dt # dts) st = Inr st'"
    by (simp add: stepSimulation_def s a)
  moreover have "trace st' = trace st @ (evs1 @ evs)"
    by (simp add: t t1)
  moreover have "frameCounter st' = frameCounter st + length (dt # dts)"
    by (simp add: c c1)
  moreover have "elapsedTime st' =
       elapsedTime st + 1000 * sum_list (map (effectiveDT cfg (screenProperty st)) (dt # dts))"
    by (simp add: e e1 p1 algebra_simps)
  moreover have "screenProperty st' = screenProperty st"
    by (simp add: p p1)
  moreover have "filter isModelStep (evs1 @ evs) =
       (if modelHasStep cfg (screenProperty st)
        then map (ModelStep (screenProperty st))
               (filter (\<lambda>d. d \<noteq> 0) (map (effectiveDT cfg (screenProperty st)) (dt # dts)))
        else [])"
    by (simp add: m m1 p1)
  moreover have "filter isViewStep (evs1 @ evs) =
       (if viewHasStep cfg (screenProperty st)
        then map (ViewStep (screenProperty st)) (map (effectiveDT cfg (screenProperty st)) (dt # dts))
        else [])"
    by (simp add: v v1 p1)
  ultimately show ?case by blast
qed

lemma newEvents_append:
  "trace st' = trace st @ evs \<Longrightarrow> newEvents st st' = evs"
  by (simp add: newEvents_def)

lemma runAnimationLoop_skipped:
  assumes "getDT (lastStepTime st) stepTime \<le> 0"
  shows "\<exists>st'. runAnimationLoop cfg stepTime currentTime st = Inr st' \<and>
     trace st' = trace st @
       (if \<not> destroyed st then [RequestAnimationFrame] else []) @
       (if activeProperty st \<and> \<not> playbackModeEnabled cfg \<and> frameCounter st > 0
        then [FuzzInputEvents] else []) @
       [AnimationFrameTimerEmit (getDT (lastAnimationFrameTime st) currentTime)] @
       (if PHET_IO_ENABLED cfg then [PhetioOnAnimationLoop] else []) \<and>
     frameCounter st' = frameCounter st \<and>
     elapsedTime st' = elapsedTime st"
  using assms
  by (simp add: runAnimationLoop_def stepOneFrame_def Let_def)

lemma showOrHideScreen_fields:
  "trace (showOrHideScreen cur s st) = trace st @ screenSwitchEvents cur s st"
  "screenActive (showOrHideScreen cur s st) = (screenActive st)(s := (s = cur))"
  "viewVisible (showOrHideScreen cur s st) = (viewVisible st)(s := (s = cur))"
  "screens (showOrHideScreen cur s st) = screens st"
  "screenProperty (showOrHideScreen cur s st) = screenProperty st"
  "homeScreen (showOrHideScreen cur s st) = homeScreen st"
  "isSettingPhetioState (showOrHideScreen cur s st) = isSettingPhetioState st"
  by (simp_all add: showOrHideScreen_def screenSwitchEvents_def Let_def screenActive_set_def
        view_setVisible_def)

lemma fold_showOrHideScreen_fields:
  "trace (fold (showOrHideScreen cur) ss st) = trace st @ switchEventsAll cur ss st"
  "screens (fold (showOrHideScreen cur) ss st) = screens st"
  "screenProperty (fold (showOrHideScreen cur) ss st) = screenProperty st"
  "homeScreen (fold (showOrHideScreen cur) ss st) = homeScreen st"
  "isSettingPhetioState (fold (showOrHideScreen cur) ss st) = isSettingPhetioState st"
  by (induction ss arbitrary: st) (simp_all add: showOrHideScreen_fields)

lemma fold_showOrHideScreen_active:
  "screenActive (fold (showOrHideScreen cur) ss st) s =
     (if s \<in> set ss then s = cur else screenActive st s)"
  by (induction ss arbitrary: st) (auto simp add: showOrHideScreen_fields)

lemma fold_showOrHideScreen_visible:
  "viewVisible (fold (showOrHideScreen cur) ss st) s =
     (if s \<in> set ss then s = cur else viewVisible st s)"
  by (induction ss arbitrary: st) (auto simp add: showOrHideScreen_fields)

lemma switchEventsAll_visible:
  "ViewSetVisible cur True \<in> set (switchEventsAll cur ss st) \<longleftrightarrow> cur \<in> set ss"
  by (induction ss arbitrary: st) (auto simp add: screenSwitchEvents_def)

lemma switchEventsAll_other:
  "InterruptViewInput x \<notin> set (switchEventsAll cur ss st)"
  "ResetTransform \<notin> set (switchEventsAll cur ss st)"
  "UpdateBackground y \<notin> set (switchEventsAll cur ss st)"
  by (induction ss arbitrary: st) (auto simp add: screenSwitchEvents_def)

lemma switchEventsAll_safe:
  assumes "\<forall>s \<in> set ss. viewVisible st s \<longrightarrow> screenActive st s"
  shows "\<forall>e \<in> set (switchEventsAll cur ss st). \<not> activeChangeWhileVisible e"
  using assms
proof (induction ss arbitrary: st)
  case Nil
  show ?case by simp
next
  case (Cons x xs)
  have here: "\<forall>e \<in> set (screenSwitchEvents cur x st). \<not> activeChangeWhileVisible e"
    using Cons.prems by (auto simp add: screenSwitchEvents_def)
  have "\<forall>s \<in> set xs. viewVisible (showOrHideScreen cur x st) s \<longrightarrow>
          screenActive (showOrHideScreen cur x st) s"
    using Cons.prems by (simp add: showOrHideScreen_fields)
  from Cons.IH [OF this] here show ?case by auto
qed

text \<open>The listener of \<open>finishInit\<close>, run for the screen \<open>cur\<close>.\<close>

lemma screenListener_fields:
  "trace (screenListener cur st) = trace st @ switchEventsAll cur (screens st) st @
     [UpdateBackground (screenProperty st)] @
     (if \<not> isSettingPhetioState st then [ResetTransform] else [])"
  "screenProperty (screenListener cur st) = screenProperty st"
  "screens (screenListener cur st) = screens st"
  "homeScreen (screenListener cur st) = homeScreen st"
  "screenActive (screenListener cur st) s =
     (if s \<in> set (screens st) then s = cur else screenActive st s)"
  "viewVisible (screenListener cur st) s =
     (if s \<in> set (screens st) then s = cur else viewVisible st s)"
  by (simp_all add: screenListener_def Let_def updateBackground_def fold_showOrHideScreen_fields
        fold_showOrHideScreen_active fold_showOrHideScreen_visible)

lemma switchEventsAll_cong:
  assumes "screenActive a = screenActive b" "viewVisible a = viewVisible b"
  shows "switchEventsAll cur ss a = switchEventsAll cur ss b"
  using assms
proof (induction ss arbitrary: a b)
  case Nil
  show ?case by simp
next
  case (Cons x xs)
  have "switchEventsAll cur xs (showOrHideScreen cur x a) =
        switchEventsAll cur xs (showOrHideScreen cur x b)"
    by (rule Cons.IH) (simp_all add: showOrHideScreen_fields Cons.prems)
  then show ?case
    by (simp add: screenSwitchEvents_def Cons.prems)
qed

text \<open>A change of the screen property.\<close>

lemma screenProperty_set_change:
  assumes "newScreen \<in> set (screens st)" "newScreen \<noteq> screenProperty st"
  shows "\<exists>st'. screenProperty_set newScreen st = Inr st' \<and>
     trace st' = trace st @
       [UpdateBackground newScreen, InterruptViewInput (screenProperty st)] @
       switchEventsAll newScreen (screens st) st @
       [UpdateBackground newScreen] @
       (if \<not> isSettingPhetioState st then [ResetTransform] else []) \<and>
     screenProperty st' = newScreen \<and>
     screens st' = screens st \<and>
     homeScreen st' = homeScreen st \<and>
     (\<forall>s. screenActive st' s = (if s \<in> set (screens st) then s = newScreen else screenActive st s)) \<and>
     (\<forall>s. viewVisible st' s = (if s \<in> set (screens st) then s = newScreen else viewVisible st s))"
proof -
  define st3 where
    "st3 = emit (InterruptViewInput (screenProperty st))
             (updateBackground (st\<lparr>screenProperty := newScreen\<rparr>))"
  have f3: "trace st3 = trace st @ [UpdateBackground newScreen, InterruptViewInput (screenProperty st)]"
    "screenProperty st3 = newScreen" "screens st3 = screens st" "homeScreen st3 = homeScreen st"
    "screenActive st3 = screenActive st" "viewVisible st3 = viewVisible st"
    "isSettingPhetioState st3 = isSettingPhetioState st"
    by (simp_all add: st3_def updateBackground_def)
  have r: "screenProperty_set newScreen st = Inr (screenListener newScreen st3)"
    using assms by (simp add: screenProperty_set_def Let_def st3_def)
  have c: "switchEventsAll newScreen (screens st) st3 = switchEventsAll newScreen (screens st) st"
    by (rule switchEventsAll_cong) (simp_all add: f3)
  show ?thesis
    by (simp add: r screenListener_fields f3 c)
qed

lemma modalNodeStack_push_fields:
  "trace (modalNodeStack_push p st) = trace st @ [ModalPush p]"
  "modalNodeStack (modalNodeStack_push p st) = modalNodeStack st @ [p]"
  "barrierVisible (modalNodeStack_push p st) = True"
  "topLayerChildren (modalNodeStack_push p st) = topLayerChildren st"
  "screenBoundsProperty (modalNodeStack_push p st) = screenBoundsProperty st"
  by (simp_all add: modalNodeStack_push_def barrierListener_def emit_def)

lemma modalNodeStack_remove_fields:
  "trace (modalNodeStack_remove p st) = trace st @ [ModalRemove p]"
  "modalNodeStack (modalNodeStack_remove p st) = remove1 p (modalNodeStack st)"
  "barrierVisible (modalNodeStack_remove p st) = (remove1 p (modalNodeStack st) \<noteq> [])"
  "topLayerChildren (modalNodeStack_remove p st) = topLayerChildren st"
  by (simp_all add: modalNodeStack_remove_def barrierListener_def emit_def)

lemma showPopup_ok:
  assumes "\<not> topLayer_hasChild st p" "assertEnabled cfg \<longrightarrow> hasHide p"
  shows "\<exists>st'. showPopup cfg p isModal st = Inr st' \<and>
     trace st' = trace st @
       (if isModal then [InterruptRootInput, ModalPush p] else []) @
       (if hasLayout p then [NodeLayout (PopupNode p) (screenBoundsProperty st)] else []) @
       [TopLayerAdd p] \<and>
     modalNodeStack st' = (if isModal then modalNodeStack st @ [p] else modalNodeStack st) \<and>
     barrierVisible st' = (if isModal then True else barrierVisible st) \<and>
     topLayerChildren st' = topLayerChildren st @ [PopupNode p]"
  using assms
  by (simp add: showPopup_def Let_def topLayer_hasChild_def modalNodeStack_push_fields)

lemma hidePopup_ok:
  assumes "topLayer_hasChild st p" "p \<in> set (modalNodeStack st)"
  shows "\<exists>st'. hidePopup cfg p isModal st = Inr st' \<and>
     trace st' = trace st @ (if isModal then [ModalRemove p] else []) @ [TopLayerRemove p] \<and>
     modalNodeStack st' =
       (if isModal then remove1 p (modalNodeStack st) else modalNodeStack st) \<and>
     barrierVisible st' =
       (if isModal then remove1 p (modalNodeStack st) \<noteq> [] else barrierVisible st) \<and>
     topLayerChildren st' = remove1 (PopupNode p) (topLayerChildren st)"
  using assms
  by (simp add: hidePopup_def Let_def topLayer_hasChild_def modalNodeStack_remove_fields)

lemma showPopup_barrier:
  assumes "showPopup cfg p isModal st = Inr st'"
    and "barrierVisible st = (modalNodeStack st \<noteq> [])"
  shows "barrierVisible st' = (modalNodeStack st' \<noteq> [])"
  using assms
  by (auto simp add: showPopup_def Let_def modalNodeStack_push_fields split: if_splits)

lemma hidePopup_barrier:
  assumes "hidePopup cfg p isModal st = Inr st'"
    and "barrierVisible st = (modalNodeStack st \<noteq> [])"
  shows "barrierVisible st' = (modalNodeStack st' \<noteq> [])"
  using assms
  by (auto simp add: hidePopup_def Let_def modalNodeStack_remove_fields split: if_splits)

lemma runPopupCalls_barrier:
  assumes "runPopupCalls cfg calls st = Inr st'"
    and "barrierVisible st = (modalNodeStack st \<noteq> [])"
  shows "barrierVisible st' = (modalNodeStack st' \<noteq> [])"
  using assms
proof (induction calls arbitrary: st)
  case Nil
  then show ?case by simp
next
  case (Cons c calls)
  show ?case
  proof (cases c)
    case (Show p isModal)
    with Cons.prems obtain st1 where s: "showPopup cfg p isModal st = Inr st1"
      and r: "runPopupCalls cfg calls st1 = Inr st'"
      by (auto split: sum.splits)
    from showPopup_barrier [OF s Cons.prems(2)] Cons.IH [OF r] show ?thesis by simp
  next
    case (Hide p isModal)
    with Cons.prems obtain st1 where s: "hidePopup cfg p isModal st = Inr st1"
      and r: "runPopupCalls cfg calls st1 = Inr st'"
      by (auto split: sum.splits)
    from hidePopup_barrier [OF s Cons.prems(2)] Cons.IH [OF r] show ?thesis by simp
  qed
qed

section \<open>Sequences of simulation steps\<close>

text \<open>
  Claim C1, as stated, fails. On the laid-out example sim (speed 1, elapsed time 0),
  \<open>stepSimulation(-1)\<close> moves the elapsed-time accumulator to \<open>-1000\<close> although no positive
  time step was given, and both the model step and the view step of the selected screen
  are called, with \<open>-1\<close>.
\<close>

theorem C1_negative_step_counterexample:
  "elapsedTime demoLaidOut = 0 \<and>
   isl (stepSimulation demoConfig (- 1) demoLaidOut) = False \<and>
   elapsedTime (projr (stepSimulation demoConfig (- 1) demoLaidOut)) = - 1000 \<and>
   filter isModelStep (newEvents demoLaidOut (projr (stepSimulation demoConfig (- 1) demoLaidOut))) =
     [ModelStep 0 (- 1)] \<and>
   filter isViewStep (newEvents demoLaidOut (projr (stepSimulation demoConfig (- 1) demoLaidOut))) =
     [ViewStep 0 (- 1)]"
proof -
  have p: "\<not> resizePending demoLaidOut" by (simp add: demoLaidOut_fields)
  have d: "effectiveDT demoConfig 0 (- 1) = - 1"
    "modelHasStep demoConfig 0" "viewHasStep demoConfig 0"
    by (simp_all add: effectiveDT_def demoConfig_def)
  obtain st' where s: "stepSimulationAction demoConfig (- 1) demoLaidOut = Inr st'"
    and t: "trace st' = trace demoLaidOut @ FrameStarted #
       stepEvents demoConfig (screenProperty demoLaidOut)
         (effectiveDT demoConfig (screenProperty demoLaidOut) (- 1))
         (elapsedTime demoLaidOut + effectiveDT demoConfig (screenProperty demoLaidOut) (- 1) * 1000)"
    and e: "elapsedTime st' =
       elapsedTime demoLaidOut + effectiveDT demoConfig (screenProperty demoLaidOut) (- 1) * 1000"
    using stepSimulationAction_plain [OF p, of demoConfig "- 1"] by blast
  have n: "newEvents demoLaidOut st' = FrameStarted #
       stepEvents demoConfig 0 (- 1) (- 1000)"
    using t by (simp add: newEvents_def demoLaidOut_fields d)
  show ?thesis
    using e by (simp add: stepSimulation_def s n filter_step_stepEvents d demoLaidOut_fields)
qed

text \<open>
  Claim C1, amended. A sequence of \<open>stepSimulation(dt)\<close> calls returns unless its pending
  resize fails the assertion on the window size. Then the frame counter has grown by the
  number of calls; the elapsed-time accumulator, kept in milliseconds, has grown by 1000
  times the sum of the time steps of all the calls, negative ones included, each scaled by
  the speed and capped by the selected screen's \<open>maxDT\<close>; the model step of the selected
  screen, when it has one, was called exactly for the calls whose time step is not zero,
  and its view step, when it has one, on every call.
\<close>

theorem C1_step_sequence:
  assumes "assertEnabled cfg \<and> resizePending st \<longrightarrow> 0 < innerWidth st \<and> 0 < innerHeight st"
  shows "\<exists>st'. stepAll cfg dts st = Inr st' \<and>
     frameCounter st' = frameCounter st + length dts \<and>
     elapsedTime st' =
       elapsedTime st + 1000 * sum_list (map (effectiveDT cfg (screenProperty st)) dts) \<and>
     filter isModelStep (newEvents st st') =
       (if modelHasStep cfg (screenProperty st)
        then map (ModelStep (screenProperty st))
               (filter (\<lambda>d. d \<noteq> 0) (map (effectiveDT cfg (screenProperty st)) dts))
        else []) \<and>
     filter isViewStep (newEvents st st') =
       (if viewHasStep cfg (screenProperty st)
        then map (ViewStep (screenProperty st)) (map (effectiveDT cfg (screenProperty st)) dts)
        else [])"
proof -
  obtain st' evs where a: "stepAll cfg dts st = Inr st'"
    and t: "trace st' = trace st @ evs"
    and r: "frameCounter st' = frameCounter st + length dts"
      "elapsedTime st' =
         elapsedTime st + 1000 * sum_list (map (effectiveDT cfg (screenProperty st)) dts)"
      "filter isModelStep evs =
       (if modelHasStep cfg (screenProperty st)
        then map (ModelStep (screenProperty st))
               (filter (\<lambda>d. d \<noteq> 0) (map (effectiveDT cfg (screenProperty st)) dts))
        else [])"
      "filter isViewStep evs =
       (if viewHasStep cfg (screenProperty st)
        then map (ViewStep (screenProperty st)) (map (effectiveDT cfg (screenProperty st)) dts)
        else [])"
    using stepAll_general [OF assms, of dts] by blast
  have "newEvents st st' = evs"
    using t by (rule newEvents_append)
  with a r show ?thesis by simp
qed

theorem C1_step_sequence_witness:
  "assertEnabled demoConfig \<and> resizePending demoSim \<and>
   0 < innerWidth demoSim \<and> 0 < innerHeight demoSim \<and>
   (\<exists>st'. stepAll demoConfig [1 / 4, 0, - 1, 1] demoSim = Inr st' \<and>
      frameCounter st' = 4 \<and>
      elapsedTime st' = - 250 \<and>
      filter isModelStep (newEvents demoSim st') =
        [ModelStep 0 (1 / 4), ModelStep 0 (- 1), ModelStep 0 (1 / 2)] \<and>
      filter isViewStep (newEvents demoSim st') =
        [ViewStep 0 (1 / 4), ViewStep 0 0, ViewStep 0 (- 1), ViewStep 0 (1 / 2)])"
proof -
  have h: "assertEnabled demoConfig \<and> resizePending demoSim \<longrightarrow>
      0 < innerWidth demoSim \<and> 0 < innerHeight demoSim"
    by (simp add: demoSim_def)
  have d: "screenProperty demoSim = 0" "frameCounter demoSim = 0" "elapsedTime demoSim = 0"
    by (simp_all add: demoSim_def)
  have e: "effectiveDT demoConfig 0 (1 / 4) = 1 / 4" "effectiveDT demoConfig 0 0 = 0"
    "effectiveDT demoConfig 0 (- 1) = - 1" "effectiveDT demoConfig 0 1 = 1 / 2"
    "modelHasStep demoConfig 0" "viewHasStep demoConfig 0"
    by (simp_all add: effectiveDT_def demoConfig_def)
  obtain st' where a: "stepAll demoConfig [1 / 4, 0, - 1, 1] demoSim = Inr st'"
    and f: "frameCounter st' = frameCounter demoSim + length [1 / 4, 0, - 1, 1::rat]"
      "elapsedTime st' = elapsedTime demoSim +
         1000 * sum_list (map (effectiveDT demoConfig (screenProperty demoSim)) [1 / 4, 0, - 1, 1])"
      "filter isModelStep (newEvents demoSim st') =
       (if modelHasStep demoConfig (screenProperty demoSim)
        then map (ModelStep (screenProperty demoSim))
               (filter (\<lambda>d. d \<noteq> 0)
                  (map (effectiveDT demoConfig (screenProperty demoSim)) [1 / 4, 0, - 1, 1]))
        else [])"
      "filter isViewStep (newEvents demoSim st') =
       (if viewHasStep demoConfig (screenProperty demoSim)
        then map (ViewStep (screenProperty demoSim))
               (map (effectiveDT demoConfig (screenProperty demoSim)) [1 / 4, 0, - 1, 1])
        else [])"
    using C1_step_sequence [OF h, of "[1 / 4, 0, - 1, 1]"] by blast
  have "frameCounter st' = 4" "elapsedTime st' = - 250"
    "filter isModelStep (newEvents demoSim st') =
        [ModelStep 0 (1 / 4), ModelStep 0 (- 1), ModelStep 0 (1 / 2)]"
    "filter isViewStep (newEvents demoSim st') =
        [ViewStep 0 (1 / 4), ViewStep 0 0, ViewStep 0 (- 1), ViewStep 0 (1 / 2)]"
    using f by (simp_all add: d e)
  moreover have "assertEnabled demoConfig" "resizePending demoSim"
    "0 < innerWidth demoSim" "0 < innerHeight demoSim"
    by (simp_all add: demoConfig_def demoSim_def)
  ultimately show ?thesis using a by blast
qed

section \<open>Resizing to a non-positive size\<close>

text \<open>
  Claim C2, as stated, fails. With assertions off, \<open>resize(0, 600)\<close> on the laid-out example
  sim (1024 by 768) writes the dimension property before it returns, so the dimension does
  change; with assertions on, the same call fails the assertion on the area.
\<close>

theorem C2_zero_resize_counterexample:
  "dimensionProperty demoLaidOut = Dimension2 1024 768 \<and>
   isl (resizeAction (demoConfig\<lparr>assertEnabled := False\<rparr>) 0 600 demoLaidOut) = False \<and>
   dimensionProperty (projr (resizeAction (demoConfig\<lparr>assertEnabled := False\<rparr>) 0 600 demoLaidOut)) =
     Dimension2 0 600 \<and>
   resizeAction demoConfig 0 600 demoLaidOut =
     Inl (AssertionFailed ''sim should have a nonzero area'')"
proof -
  have a: "\<not> assertEnabled (demoConfig\<lparr>assertEnabled := False\<rparr>)" "assertEnabled demoConfig"
    by (simp_all add: demoConfig_def)
  show ?thesis
    by (simp add: demoLaidOut_fields resizeAction_zero a resizeAction_assert)
qed

text \<open>
  Claim C2, amended. With assertions on, a resize whose width or height is not positive
  fails the assertion that the sim has a nonzero area. With assertions off, a resize whose
  width or height is zero raises no error, records the new dimension, and leaves the scale,
  the full bounds and the screen bounds as they were; it lays nothing out, its only call
  being the write of the dimension property.
\<close>

theorem C2_non_positive_resize:
  assumes "width \<le> 0 \<or> height \<le> 0"
  shows "(assertEnabled cfg \<longrightarrow>
            resizeAction cfg width height st =
              Inl (AssertionFailed ''sim should have a nonzero area'')) \<and>
         (\<not> assertEnabled cfg \<and> (width = 0 \<or> height = 0) \<longrightarrow>
            (\<exists>st'. resizeAction cfg width height st = Inr st' \<and>
               dimensionProperty st' = Dimension2 width height \<and>
               scaleProperty st' = scaleProperty st \<and>
               boundsProperty st' = boundsProperty st \<and>
               screenBoundsProperty st' = screenBoundsProperty st \<and>
               newEvents st st' = [DimensionSet (Dimension2 width height)]))"
proof (intro conjI impI)
  assume "assertEnabled cfg"
  with assms show "resizeAction cfg width height st =
      Inl (AssertionFailed ''sim should have a nonzero area'')"
    by (rule resizeAction_assert)
next
  assume "\<not> assertEnabled cfg \<and> (width = 0 \<or> height = 0)"
  then have "resizeAction cfg width height st =
     Inr (emit (DimensionSet (Dimension2 width height))
            (st\<lparr>dimensionProperty := Dimension2 width height\<rparr>))"
    by (simp add: resizeAction_zero)
  then show "\<exists>st'. resizeAction cfg width height st = Inr st' \<and>
               dimensionProperty st' = Dimension2 width height \<and>
               scaleProperty st' = scaleProperty st \<and>
               boundsProperty st' = boundsProperty st \<and>
               screenBoundsProperty st' = screenBoundsProperty st \<and>
               newEvents st st' = [DimensionSet (Dimension2 width height)]"
    by (simp add: newEvents_def)
qed

theorem C2_non_positive_resize_witness:
  "((0::rat) \<le> 0 \<or> (600::rat) \<le> 0) \<and>
   assertEnabled demoConfig \<and>
   resizeAction demoConfig 0 600 demoLaidOut =
     Inl (AssertionFailed ''sim should have a nonzero area'') \<and>
   \<not> assertEnabled (demoConfig\<lparr>assertEnabled := False\<rparr>) \<and>
   (\<exists>st'. resizeAction (demoConfig\<lparr>assertEnabled := False\<rparr>) 0 600 demoLaidOut = Inr st' \<and>
      dimensionProperty st' = Dimension2 0 600 \<and>
      scaleProperty st' = 4 / 3 \<and>
      boundsProperty st' = Some (Bounds2 0 0 1024 768) \<and>
      screenBoundsProperty st' = Some (Bounds2 0 0 1024 (2144 / 3)) \<and>
      newEvents demoLaidOut st' = [DimensionSet (Dimension2 0 600)])"
proof -
  have a: "\<not> assertEnabled (demoConfig\<lparr>assertEnabled := False\<rparr>)" "assertEnabled demoConfig"
    by (simp_all add: demoConfig_def)
  show ?thesis
    using C2_non_positive_resize [of 0 600 demoConfig demoLaidOut]
      C2_non_positive_resize [of 0 600 "demoConfig\<lparr>assertEnabled := False\<rparr>" demoLaidOut]
    by (simp add: a demoLaidOut_fields)
qed

section \<open>The time step of a tick\<close>

text \<open>
  Claim C3, as stated, fails in the scheduling of the next frame. On the example sim after
  \<open>destroy()\<close>, with the last tick at 5000 ms, the animation loop run at 4990 ms computes
  a time step that is not positive, returns, and does not request the next animation frame.
\<close>

theorem C3_destroyed_sim_schedules_nothing_counterexample:
  "destroyed (demoSim\<lparr>lastStepTime := 5000, destroyed := True\<rparr>) \<and>
   getDT (lastStepTime (demoSim\<lparr>lastStepTime := 5000, destroyed := True\<rparr>)) 4990 = - 1 / 100 \<and>
   isl (runAnimationLoop demoConfig 4990 4991
          (demoSim\<lparr>lastStepTime := 5000, destroyed := True\<rparr>)) = False \<and>
   RequestAnimationFrame \<notin> set (newEvents (demoSim\<lparr>lastStepTime := 5000, destroyed := True\<rparr>)
     (projr (runAnimationLoop demoConfig 4990 4991
               (demoSim\<lparr>lastStepTime := 5000, destroyed := True\<rparr>))))"
proof -
  let ?st = "demoSim\<lparr>lastStepTime := 5000, destroyed := True\<rparr>"
  have d: "destroyed ?st" "lastStepTime ?st = 5000"
    by (simp_all add: demoSim_def)
  have g: "getDT (lastStepTime ?st) 4990 = - 1 / 100"
    by (simp add: d getDT_def)
  then have "getDT (lastStepTime ?st) 4990 \<le> 0"
    by simp
  then obtain st' where r: "runAnimationLoop demoConfig 4990 4991 ?st = Inr st'"
    and t: "trace st' = trace ?st @
       (if \<not> destroyed ?st then [RequestAnimationFrame] else []) @
       (if activeProperty ?st \<and> \<not> playbackModeEnabled demoConfig \<and> frameCounter ?st > 0
        then [FuzzInputEvents] else []) @
       [AnimationFrameTimerEmit (getDT (lastAnimationFrameTime ?st) 4991)] @
       (if PHET_IO_ENABLED demoConfig then [PhetioOnAnimationLoop] else [])"
    using runAnimationLoop_skipped [of ?st 4990 demoConfig 4991] by blast
  have n: "newEvents ?st st' =
       (if \<not> destroyed ?st then [RequestAnimationFrame] else []) @
       (if activeProperty ?st \<and> \<not> playbackModeEnabled demoConfig \<and> frameCounter ?st > 0
        then [FuzzInputEvents] else []) @
       [AnimationFrameTimerEmit (getDT (lastAnimationFrameTime ?st) 4991)] @
       (if PHET_IO_ENABLED demoConfig then [PhetioOnAnimationLoop] else [])"
    using t by (rule newEvents_append)
  have "RequestAnimationFrame \<notin> set (newEvents ?st st')"
    unfolding n using d(1) by simp
  then show ?thesis
    using r g d(1) by simp
qed

text \<open>
  Claim C3, amended. A tick (\<open>stepOneFrame\<close>) steps the simulation by \<open>1/60\<close> when no tick
  has recorded a time yet (\<open>lastStepTime\<close> still holds \<open>-1\<close>), and by the time since the
  last tick, in seconds, when that is positive; either way it records the current time.
  When the computed time step is not positive the tick only records the current time: the
  simulation is not stepped. In that case the animation loop returns, calls no model or
  view step, leaves the frame counter and the elapsed time as they were, and requests the
  next animation frame unless the sim has been destroyed: it requests it exactly when the
  sim is not destroyed.
\<close>

theorem C3_tick_time_step:
  "(lastStepTime st = - 1 \<longrightarrow>
      stepOneFrame cfg now st = stepSimulation cfg (1 / 60) (st\<lparr>lastStepTime := now\<rparr>)) \<and>
   (lastStepTime st \<noteq> - 1 \<and> 0 < (now - lastStepTime st) / 1000 \<longrightarrow>
      stepOneFrame cfg now st =
        stepSimulation cfg ((now - lastStepTime st) / 1000) (st\<lparr>lastStepTime := now\<rparr>)) \<and>
   (getDT (lastStepTime st) now \<le> 0 \<longrightarrow>
      lastStepTime st \<noteq> - 1 \<and>
      getDT (lastStepTime st) now = (now - lastStepTime st) / 1000 \<and>
      stepOneFrame cfg now st = Inr (st\<lparr>lastStepTime := now\<rparr>) \<and>
      (\<exists>st'. runAnimationLoop cfg now now' st = Inr st' \<and>
         (RequestAnimationFrame \<in> set (newEvents st st') \<longleftrightarrow> \<not> destroyed st) \<and>
         filter isModelStep (newEvents st st') = [] \<and>
         filter isViewStep (newEvents st st') = [] \<and>
         frameCounter st' = frameCounter st \<and>
         elapsedTime st' = elapsedTime st))"
proof (intro conjI impI)
  assume "lastStepTime st = - 1"
  then show "stepOneFrame cfg now st = stepSimulation cfg (1 / 60) (st\<lparr>lastStepTime := now\<rparr>)"
    by (simp add: stepOneFrame_def getDT_def Let_def)
next
  assume "lastStepTime st \<noteq> - 1 \<and> 0 < (now - lastStepTime st) / 1000"
  then show "stepOneFrame cfg now st =
        stepSimulation cfg ((now - lastStepTime st) / 1000) (st\<lparr>lastStepTime := now\<rparr>)"
    by (simp add: stepOneFrame_def getDT_def Let_def)
next
  assume a: "getDT (lastStepTime st) now \<le> 0"
  then show n: "lastStepTime st \<noteq> - 1"
    by (auto simp add: getDT_def)
  then show "getDT (lastStepTime st) now = (now - lastStepTime st) / 1000"
    by (simp add: getDT_def)
  from a show "stepOneFrame cfg now st = Inr (st\<lparr>lastStepTime := now\<rparr>)"
    by (simp add: stepOneFrame_def Let_def)
next
  assume a: "getDT (lastStepTime st) now \<le> 0"
  obtain st' where r: "runAnimationLoop cfg now now' st = Inr st'"
    and t: "trace st' = trace st @
       (if \<not> destroyed st then [RequestAnimationFrame] else []) @
       (if activeProperty st \<and> \<not> playbackModeEnabled cfg \<and> frameCounter st > 0
        then [FuzzInputEvents] else []) @
       [AnimationFrameTimerEmit (getDT (lastAnimationFrameTime st) now')] @
       (if PHET_IO_ENABLED cfg then [PhetioOnAnimationLoop] else [])"
    and f: "frameCounter st' = frameCounter st" "elapsedTime st' = elapsedTime st"
    using runAnimationLoop_skipped [OF a, of cfg now'] by blast
  have "newEvents st st' =
       (if \<not> destroyed st then [RequestAnimationFrame] else []) @
       (if activeProperty st \<and> \<not> playbackModeEnabled cfg \<and> frameCounter st > 0
        then [FuzzInputEvents] else []) @
       [AnimationFrameTimerEmit (getDT (lastAnimationFrameTime st) now')] @
       (if PHET_IO_ENABLED cfg then [PhetioOnAnimationLoop] else [])"
    using t by (rule newEvents_append)
  with r f show "\<exists>st'. runAnimationLoop cfg now now' st = Inr st' \<and>
         (RequestAnimationFrame \<in> set (newEvents st st') \<longleftrightarrow> \<not> destroyed st) \<and>
         filter isModelStep (newEvents st st') = [] \<and>
         filter isViewStep (newEvents st st') = [] \<and>
         frameCounter st' = frameCounter st \<and>
         elapsedTime st' = elapsedTime st"
    by simp
qed

theorem C3_tick_time_step_witness:
  "lastStepTime demoSim = - 1 \<and>
   stepOneFrame demoConfig 5000 demoSim =
     stepSimulation demoConfig (1 / 60) (demoSim\<lparr>lastStepTime := 5000\<rparr>) \<and>
   lastStepTime (demoSim\<lparr>lastStepTime := 5000\<rparr>) \<noteq> - 1 \<and>
   0 < (5016 - lastStepTime (demoSim\<lparr>lastStepTime := 5000\<rparr>)) / 1000 \<and>
   stepOneFrame demoConfig 5016 (demoSim\<lparr>lastStepTime := 5000\<rparr>) =
     stepSimulation demoConfig (2 / 125) (demoSim\<lparr>lastStepTime := 5016\<rparr>) \<and>
   getDT (lastStepTime (demoSim\<lparr>lastStepTime := 5000\<rparr>)) 4990 \<le> 0 \<and>
   stepOneFrame demoConfig 4990 (demoSim\<lparr>lastStepTime := 5000\<rparr>) =
     Inr (demoSim\<lparr>lastStepTime := 4990\<rparr>) \<and>
   \<not> destroyed (demoSim\<lparr>lastStepTime := 5000\<rparr>) \<and>
   (\<exists>st'. runAnimationLoop demoConfig 4990 4991 (demoSim\<lparr>lastStepTime := 5000\<rparr>) = Inr st' \<and>
      RequestAnimationFrame \<in> set (newEvents (demoSim\<lparr>lastStepTime := 5000\<rparr>) st') \<and>
      filter isModelStep (newEvents (demoSim\<lparr>lastStepTime := 5000\<rparr>) st') = [] \<and>
      filter isViewStep (newEvents (demoSim\<lparr>lastStepTime := 5000\<rparr>) st') = [] \<and>
      frameCounter st' = 0 \<and> elapsedTime st' = 0)"
proof -
  have d: "lastStepTime demoSim = - 1" "destroyed demoSim = False"
    "frameCounter demoSim = 0" "elapsedTime demoSim = 0"
    by (simp_all add: demoSim_def)
  have g: "getDT 5000 4990 \<le> 0"
    by (simp add: getDT_def)
  show ?thesis
    using C3_tick_time_step [of demoSim demoConfig 5000]
      C3_tick_time_step [of "demoSim\<lparr>lastStepTime := 5000\<rparr>" demoConfig 5016]
      C3_tick_time_step [of "demoSim\<lparr>lastStepTime := 5000\<rparr>" demoConfig 4990 4991]
    by (simp add: d g)
qed

section \<open>Window resizes and playback mode\<close>

text \<open>
  Claim C4, as stated, fails. In playback mode the resize listener does nothing: on the
  laid-out example sim, whose pending-resize flag is clear, a window resize arriving in
  playback mode leaves the flag clear, so the request is not recorded.
\<close>

theorem C4_playback_resize_counterexample:
  "playbackModeEnabled (demoConfig\<lparr>playbackModeEnabled := True\<rparr>) \<and>
   resizePending demoLaidOut = False \<and>
   resizePending (resizeListener (demoConfig\<lparr>playbackModeEnabled := True\<rparr>) demoLaidOut) = False"
  by (simp add: resizeListener_def demoLaidOut_fields)

text \<open>
  Claim C4, amended. While playback mode is enabled a window-resize request from the host
  is ignored: the state, the pending-resize flag included, stays as it is. While playback
  mode is disabled a request only sets the pending-resize flag. A pending resize is applied
  at the start of the next step of the simulation: for a window of positive size the step
  returns with the flag cleared and the dimension set to the window's, and its calls are
  the frame-started notification, then those of the resize, then those of the step.
\<close>

theorem C4_resize_requests:
  "(playbackModeEnabled cfg \<longrightarrow> resizeListener cfg st = st) \<and>
   (\<not> playbackModeEnabled cfg \<longrightarrow> resizeListener cfg st = st\<lparr>resizePending := True\<rparr>) \<and>
   (resizePending st \<and> 0 < innerWidth st \<and> 0 < innerHeight st \<longrightarrow>
      (\<exists>st'. stepSimulationAction cfg dt st = Inr st' \<and>
         resizePending st' = False \<and>
         dimensionProperty st' = Dimension2 (innerWidth st) (innerHeight st) \<and>
         newEvents st st' = FrameStarted #
           resizeEvents cfg (innerWidth st) (innerHeight st) st @
           stepEvents cfg (screenProperty st) (effectiveDT cfg (screenProperty st) dt)
             (elapsedTime st + effectiveDT cfg (screenProperty st) dt * 1000)))"
proof (intro conjI impI)
  assume "playbackModeEnabled cfg"
  then show "resizeListener cfg st = st" by (simp add: resizeListener_def)
next
  assume "\<not> playbackModeEnabled cfg"
  then show "resizeListener cfg st = st\<lparr>resizePending := True\<rparr>" by (simp add: resizeListener_def)
next
  assume a: "resizePending st \<and> 0 < innerWidth st \<and> 0 < innerHeight st"
  then obtain st' where s: "stepSimulationAction cfg dt st = Inr st'"
    and t: "trace st' = trace st @ FrameStarted #
       resizeEvents cfg (innerWidth st) (innerHeight st) st @
       stepEvents cfg (screenProperty st) (effectiveDT cfg (screenProperty st) dt)
         (elapsedTime st + effectiveDT cfg (screenProperty st) dt * 1000)"
    and f: "resizePending st' = False"
      "dimensionProperty st' = Dimension2 (innerWidth st) (innerHeight st)"
    using stepSimulationAction_pending [of st cfg dt] by auto
  have "newEvents st st' = FrameStarted #
       resizeEvents cfg (innerWidth st) (innerHeight st) st @
       stepEvents cfg (screenProperty st) (effectiveDT cfg (screenProperty st) dt)
         (elapsedTime st + effectiveDT cfg (screenProperty st) dt * 1000)"
    using t by (rule newEvents_append)
  with s f show "\<exists>st'. stepSimulationAction cfg dt st = Inr st' \<and>
         resizePending st' = False \<and>
         dimensionProperty st' = Dimension2 (innerWidth st) (innerHeight st) \<and>
         newEvents st st' = FrameStarted #
           resizeEvents cfg (innerWidth st) (innerHeight st) st @
           stepEvents cfg (screenProperty st) (effectiveDT cfg (screenProperty st) dt)
             (elapsedTime st + effectiveDT cfg (screenProperty st) dt * 1000)"
    by simp
qed

theorem C4_resize_requests_witness:
  "playbackModeEnabled (demoConfig\<lparr>playbackModeEnabled := True\<rparr>) \<and>
   resizeListener (demoConfig\<lparr>playbackModeEnabled := True\<rparr>) demoLaidOut = demoLaidOut \<and>
   \<not> playbackModeEnabled demoConfig \<and>
   resizeListener demoConfig demoLaidOut = demoLaidOut\<lparr>resizePending := True\<rparr> \<and>
   resizePending demoSim \<and> 0 < innerWidth demoSim \<and> 0 < innerHeight demoSim \<and>
   (\<exists>st'. stepSimulationAction demoConfig (1 / 4) demoSim = Inr st' \<and>
      resizePending st' = False \<and>
      dimensionProperty st' = Dimension2 1024 768 \<and>
      newEvents demoSim st' = FrameStarted #
        resizeEvents demoConfig 1024 768 demoSim @
        stepEvents demoConfig 0 (1 / 4) 250)"
proof -
  have c: "playbackModeEnabled (demoConfig\<lparr>playbackModeEnabled := True\<rparr>)"
    "\<not> playbackModeEnabled demoConfig"
    by (simp_all add: demoConfig_def)
  have d: "resizePending demoSim" "innerWidth demoSim = 1024" "innerHeight demoSim = 768"
    "screenProperty demoSim = 0" "elapsedTime demoSim = 0"
    by (simp_all add: demoSim_def)
  have e: "effectiveDT demoConfig 0 (1 / 4) = 1 / 4"
    by (simp add: effectiveDT_def demoConfig_def)
  show ?thesis
    using C4_resize_requests [where cfg = "demoConfig\<lparr>playbackModeEnabled := True\<rparr>" and st = demoLaidOut]
      C4_resize_requests [where cfg = demoConfig and st = demoLaidOut]
      C4_resize_requests [where cfg = demoConfig and st = demoSim and dt = "1 / 4"]
    by (simp add: c d e)
qed

section \<open>The geometry a resize computes\<close>

lemma filter_ViewLayout_ViewLayout [simp]:
  "filter isViewLayout (map (\<lambda>m. ViewLayout m b) ms @ ys) =
     map (\<lambda>m. ViewLayout m b) ms @ filter isViewLayout ys"
  by (induction ms) simp_all

lemma filter_ViewLayout_NodeLayout [simp]:
  "filter isViewLayout (map (\<lambda>c. NodeLayout c b) cs @ ys) = filter isViewLayout ys"
  by (induction cs) simp_all

text \<open>
  Claim C5, as stated, fails in its last part. Resizing the example sim to 1536 by 1008
  gives the scale 2, and each screen's layout is called with the content bounds
  \<open>(0, 0, 1536, 928)\<close> only: the scale is not among the values a screen receives.
\<close>

theorem C5_scale_not_passed_to_screens_counterexample:
  "isl (resizeAction demoConfig 1536 1008 demoSim) = False \<and>
   scaleProperty (projr (resizeAction demoConfig 1536 1008 demoSim)) = 2 \<and>
   filter isViewLayout (newEvents demoSim (projr (resizeAction demoConfig 1536 1008 demoSim))) =
     [ViewLayout 0 (Bounds2 0 0 1536 928), ViewLayout 1 (Bounds2 0 0 1536 928),
      ViewLayout 2 (Bounds2 0 0 1536 928)] \<and>
   2 \<notin> set (layoutArguments (ViewLayout 0 (Bounds2 0 0 1536 928)))"
proof -
  obtain st' where r: "resizeAction demoConfig 1536 1008 demoSim = Inr st'"
    and t: "trace st' = trace demoSim @ resizeEvents demoConfig 1536 1008 demoSim"
    and s: "scaleProperty st' = min (1536 / 768) (1008 / 504)"
    using resizeAction_valid [of 1536 1008 demoConfig demoSim] by auto
  have n: "newEvents demoSim st' = resizeEvents demoConfig 1536 1008 demoSim"
    by (simp add: newEvents_def t)
  have "filter isViewLayout (resizeEvents demoConfig 1536 1008 demoSim) =
     [ViewLayout 0 (Bounds2 0 0 1536 928), ViewLayout 1 (Bounds2 0 0 1536 928),
      ViewLayout 2 (Bounds2 0 0 1536 928)]"
    by (simp add: resizeEvents_def demoConfig_def demoSim_def Let_def)
  then show ?thesis
    using r s n by simp
qed

text \<open>
  Claim C5, amended. For every resize with positive width and height the action returns;
  the scale is \<open>min (width / referenceWidth) (height / referenceHeight)\<close> for the layout
  bounds of the home screen view; the navigation-bar height is the scale times the fixed bar
  height; the content bounds run from the toolbar's displayed width (0 without a toolbar) to
  \<open>width\<close> and from 0 to \<open>height\<close> minus the navigation-bar height; the scale is handed to
  the navigation bar's layout (and to the toolbar's, when there is a toolbar); every
  screen's layout and every layout-aware top-layer child's layout is called once, with these
  content bounds and not with the scale.
\<close>

theorem C5_resize_geometry:
  assumes "0 < width" and "0 < height"
  shows "\<exists>st' b. resizeAction cfg width height st = Inr st' \<and>
     scaleProperty st' =
       min (width / bounds_width LAYOUT_BOUNDS) (height / bounds_height LAYOUT_BOUNDS) \<and>
     navigationBarHeight st' = scaleProperty st' * NAVIGATION_BAR_SIZE_height cfg \<and>
     b = Bounds2 (case toolbar st' of None \<Rightarrow> 0 | Some t \<Rightarrow> getDisplayedWidth cfg t) 0 width
           (height - navigationBarHeight st') \<and>
     screenBoundsProperty st' = Some b \<and>
     NavigationBarLayout (scaleProperty st') width (navigationBarHeight st')
       \<in> set (newEvents st st') \<and>
     (toolbar st \<noteq> None \<longrightarrow>
        ToolbarLayout (scaleProperty st') (height - navigationBarHeight st')
          \<in> set (newEvents st st')) \<and>
     filter isLayoutCall (newEvents st st') =
       map (\<lambda>m. ViewLayout m b) (screens st) @
       map (\<lambda>c. NodeLayout c (Some b)) (filter nodeHasLayout (topLayerChildren st))"
proof -
  from assms obtain st' where r: "resizeAction cfg width height st = Inr st'"
    and t: "trace st' = trace st @ resizeEvents cfg width height st"
    and s: "scaleProperty st' = min (width / 768) (height / 504)"
    and nb: "navigationBarHeight st' =
       min (width / 768) (height / 504) * NAVIGATION_BAR_SIZE_height cfg"
    and tb: "toolbar st' = (case toolbar st of None \<Rightarrow> None
        | Some t \<Rightarrow> Some \<lparr>toolbarScale = min (width / 768) (height / 504),
             toolbarHeight = height - min (width / 768) (height / 504) * NAVIGATION_BAR_SIZE_height cfg\<rparr>)"
    and sb: "screenBoundsProperty st' =
       Some (Bounds2 (case toolbar st' of None \<Rightarrow> 0 | Some t \<Rightarrow> getDisplayedWidth cfg t) 0 width
               (height - min (width / 768) (height / 504) * NAVIGATION_BAR_SIZE_height cfg))"
    using resizeAction_valid [of width height cfg st] by auto
  have n: "newEvents st st' = resizeEvents cfg width height st"
    by (simp add: newEvents_def t)
  have m: "NavigationBarLayout (min (width / 768) (height / 504)) width
      (min (width / 768) (height / 504) * NAVIGATION_BAR_SIZE_height cfg)
        \<in> set (resizeEvents cfg width height st)"
    by (simp add: resizeEvents_def Let_def)
  have tl: "toolbar st \<noteq> None \<Longrightarrow>
     ToolbarLayout (min (width / 768) (height / 504))
       (height - min (width / 768) (height / 504) * NAVIGATION_BAR_SIZE_height cfg)
        \<in> set (resizeEvents cfg width height st)"
    by (cases "toolbar st") (simp_all add: resizeEvents_def Let_def)
  show ?thesis
    using r s nb sb tb m tl
    by (cases "toolbar st")
       (simp_all add: n resizeEvents_layouts Let_def LAYOUT_BOUNDS_def bounds_width_def
          bounds_height_def)
qed

theorem C5_resize_geometry_witness:
  "0 < (1024::rat) \<and> 0 < (768::rat) \<and>
   (\<exists>st' b. resizeAction demoConfig 1024 768 demoSim = Inr st' \<and>
     scaleProperty st' =
       min (1024 / bounds_width LAYOUT_BOUNDS) (768 / bounds_height LAYOUT_BOUNDS) \<and>
     navigationBarHeight st' = scaleProperty st' * NAVIGATION_BAR_SIZE_height demoConfig \<and>
     b = Bounds2 (case toolbar st' of None \<Rightarrow> 0 | Some t \<Rightarrow> getDisplayedWidth demoConfig t) 0 1024
           (768 - navigationBarHeight st') \<and>
     screenBoundsProperty st' = Some b \<and>
     NavigationBarLayout (scaleProperty st') 1024 (navigationBarHeight st')
       \<in> set (newEvents demoSim st') \<and>
     (toolbar demoSim \<noteq> None \<longrightarrow>
        ToolbarLayout (scaleProperty st') (768 - navigationBarHeight st')
          \<in> set (newEvents demoSim st')) \<and>
     filter isLayoutCall (newEvents demoSim st') =
       map (\<lambda>m. ViewLayout m b) (screens demoSim) @
       map (\<lambda>c. NodeLayout c (Some b)) (filter nodeHasLayout (topLayerChildren demoSim)))"
  using C5_resize_geometry [of 1024 768 demoConfig demoSim] by simp

section \<open>Geometry is written after layout\<close>

text \<open>
  Claim C6. For every valid resize (positive width and height) the action returns, and in
  the calls it makes every screen's layout and every layout-aware top-layer child's layout
  come before the first write of a geometry property: they all lie in the part of the trace
  before the first such write, no layout call follows it, and the writes are exactly the
  scale, the full bounds and the screen bounds, in this order.
\<close>

theorem C6_geometry_written_after_layout:
  assumes "0 < width" and "0 < height"
  shows "\<exists>st' b. resizeAction cfg width height st = Inr st' \<and>
     screenBoundsProperty st' = Some b \<and>
     (\<forall>m \<in> set (screens st).
        ViewLayout m b \<in> set (takeWhile (Not \<circ> isGeometryWrite) (newEvents st st'))) \<and>
     (\<forall>c \<in> set (topLayerChildren st). nodeHasLayout c \<longrightarrow>
        NodeLayout c (Some b) \<in> set (takeWhile (Not \<circ> isGeometryWrite) (newEvents st st'))) \<and>
     (\<forall>e \<in> set (dropWhile (Not \<circ> isGeometryWrite) (newEvents st st')). \<not> isLayoutCall e) \<and>
     filter isGeometryWrite (newEvents st st') =
       [ScaleSet (scaleProperty st'), BoundsSet (Bounds2 0 0 width height), ScreenBoundsSet b]"
proof -
  from assms obtain st' where r: "resizeAction cfg width height st = Inr st'"
    and t: "trace st' = trace st @ resizeEvents cfg width height st"
    and s: "scaleProperty st' = min (width / 768) (height / 504)"
    and tb: "toolbar st' = (case toolbar st of None \<Rightarrow> None
        | Some t \<Rightarrow> Some \<lparr>toolbarScale = min (width / 768) (height / 504),
             toolbarHeight = height - min (width / 768) (height / 504) * NAVIGATION_BAR_SIZE_height cfg\<rparr>)"
    and sb: "screenBoundsProperty st' =
       Some (Bounds2 (case toolbar st' of None \<Rightarrow> 0 | Some t \<Rightarrow> getDisplayedWidth cfg t) 0 width
               (height - min (width / 768) (height / 504) * NAVIGATION_BAR_SIZE_height cfg))"
    using resizeAction_valid [of width height cfg st] by auto
  have n: "newEvents st st' = resizeEvents cfg width height st"
    by (simp add: newEvents_def t)
  show ?thesis
    using r s sb tb
    by (cases "toolbar st")
       (auto simp add: n resizeEvents_before resizeEvents_after resizeEvents_writes Let_def)
qed

theorem C6_geometry_written_after_layout_witness:
  "0 < (1024::rat) \<and> 0 < (768::rat) \<and>
   (\<exists>st' b. resizeAction demoConfig 1024 768 demoSim = Inr st' \<and>
     screenBoundsProperty st' = Some b \<and>
     (\<forall>m \<in> set (screens demoSim).
        ViewLayout m b \<in> set (takeWhile (Not \<circ> isGeometryWrite) (newEvents demoSim st'))) \<and>
     (\<forall>c \<in> set (topLayerChildren demoSim). nodeHasLayout c \<longrightarrow>
        NodeLayout c (Some b) \<in> set (takeWhile (Not \<circ> isGeometryWrite) (newEvents demoSim st'))) \<and>
     (\<forall>e \<in> set (dropWhile (Not \<circ> isGeometryWrite) (newEvents demoSim st')). \<not> isLayoutCall e) \<and>
     filter isGeometryWrite (newEvents demoSim st') =
       [ScaleSet (scaleProperty st'), BoundsSet (Bounds2 0 0 1024 768), ScreenBoundsSet b])"
  using C6_geometry_written_after_layout [of 1024 768 demoConfig demoSim] by simp

section \<open>Switching the current screen\<close>

text \<open>
  Claim C7, as stated, fails in the reset of the pan/zoom transform. While PhET-iO state is
  being set, changing the screen of the example sim from screen 0 to screen 1 does change
  the screen, and the pan/zoom transform is not reset.
\<close>

theorem C7_no_reset_while_setting_state_counterexample:
  "isSettingPhetioState (demoSim\<lparr>isSettingPhetioState := True\<rparr>) \<and>
   screenProperty (demoSim\<lparr>isSettingPhetioState := True\<rparr>) = 0 \<and>
   isl (screenProperty_set 1 (demoSim\<lparr>isSettingPhetioState := True\<rparr>)) = False \<and>
   screenProperty (projr (screenProperty_set 1 (demoSim\<lparr>isSettingPhetioState := True\<rparr>))) = 1 \<and>
   ResetTransform \<notin> set (newEvents (demoSim\<lparr>isSettingPhetioState := True\<rparr>)
     (projr (screenProperty_set 1 (demoSim\<lparr>isSettingPhetioState := True\<rparr>))))"
proof -
  let ?st = "demoSim\<lparr>isSettingPhetioState := True\<rparr>"
  have d: "screens ?st = [0, 1, 2]" "screenProperty ?st = 0" "isSettingPhetioState ?st"
    by (simp_all add: demoSim_def)
  have "1 \<in> set (screens ?st)" "1 \<noteq> screenProperty ?st"
    by (simp_all add: d)
  then obtain st' where r: "screenProperty_set 1 ?st = Inr st'"
    and t: "trace st' = trace ?st @
       [UpdateBackground 1, InterruptViewInput (screenProperty ?st)] @
       switchEventsAll 1 (screens ?st) ?st @
       [UpdateBackground 1] @
       (if \<not> isSettingPhetioState ?st then [ResetTransform] else [])"
    and p: "screenProperty st' = 1"
    using screenProperty_set_change [of 1 ?st] by blast
  have n: "newEvents ?st st' =
       [UpdateBackground 1, InterruptViewInput (screenProperty ?st)] @
       switchEventsAll 1 (screens ?st) ?st @
       [UpdateBackground 1] @
       (if \<not> isSettingPhetioState ?st then [ResetTransform] else [])"
    using t by (rule newEvents_append)
  have "ResetTransform \<notin> set (newEvents ?st st')"
    unfolding n using d(3) by (simp add: switchEventsAll_other)
  then show ?thesis
    using r p d by simp
qed

text \<open>
  Claim C7, amended. Assigning to the current screen the screen it already holds changes
  nothing and calls nothing, so no input is interrupted. Changing it from \<open>X\<close> to a
  different screen \<open>Y\<close> of the sim interrupts the input of the view of \<open>X\<close> before the view
  of \<open>Y\<close> is made visible; and the pan/zoom transform is reset, as the last call of the
  change, exactly when PhET-iO state is not being set.
\<close>

theorem C7_screen_change:
  assumes "newScreen \<in> set (screens st)"
  shows "(newScreen = screenProperty st \<longrightarrow> screenProperty_set newScreen st = Inr st) \<and>
     (newScreen \<noteq> screenProperty st \<longrightarrow>
        (\<exists>st'. screenProperty_set newScreen st = Inr st' \<and>
           screenProperty st' = newScreen \<and>
           occursBefore (InterruptViewInput (screenProperty st)) (ViewSetVisible newScreen True)
             (newEvents st st') \<and>
           (ResetTransform \<in> set (newEvents st st') \<longleftrightarrow> \<not> isSettingPhetioState st) \<and>
           (\<not> isSettingPhetioState st \<longrightarrow> last (newEvents st st') = ResetTransform)))"
proof (intro conjI impI)
  assume "newScreen = screenProperty st"
  with assms show "screenProperty_set newScreen st = Inr st"
    by (simp add: screenProperty_set_def)
next
  assume ne: "newScreen \<noteq> screenProperty st"
  with assms obtain st' where r: "screenProperty_set newScreen st = Inr st'"
    and t: "trace st' = trace st @
       [UpdateBackground newScreen, InterruptViewInput (screenProperty st)] @
       switchEventsAll newScreen (screens st) st @
       [UpdateBackground newScreen] @
       (if \<not> isSettingPhetioState st then [ResetTransform] else [])"
    and p: "screenProperty st' = newScreen"
    using screenProperty_set_change [of newScreen st] by blast
  have n: "newEvents st st' =
       [UpdateBackground newScreen, InterruptViewInput (screenProperty st)] @
       switchEventsAll newScreen (screens st) st @
       [UpdateBackground newScreen] @
       (if \<not> isSettingPhetioState st then [ResetTransform] else [])"
    using t by (rule newEvents_append)
  have v: "ViewSetVisible newScreen True \<in> set (switchEventsAll newScreen (screens st) st)"
    using assms by (simp add: switchEventsAll_visible)
  have o: "occursBefore (InterruptViewInput (screenProperty st)) (ViewSetVisible newScreen True)
             (newEvents st st')"
    unfolding n occursBefore_def using v by simp
  have x: "ResetTransform \<in> set (newEvents st st') \<longleftrightarrow> \<not> isSettingPhetioState st"
    unfolding n by (simp add: switchEventsAll_other)
  have l: "\<not> isSettingPhetioState st \<longrightarrow> last (newEvents st st') = ResetTransform"
    unfolding n by simp
  from r p o x l show "\<exists>st'. screenProperty_set newScreen st = Inr st' \<and>
           screenProperty st' = newScreen \<and>
           occursBefore (InterruptViewInput (screenProperty st)) (ViewSetVisible newScreen True)
             (newEvents st st') \<and>
           (ResetTransform \<in> set (newEvents st st') \<longleftrightarrow> \<not> isSettingPhetioState st) \<and>
           (\<not> isSettingPhetioState st \<longrightarrow> last (newEvents st st') = ResetTransform)"
    by blast
qed

theorem C7_screen_change_witness:
  "0 \<in> set (screens demoSim) \<and> 0 = screenProperty demoSim \<and>
   screenProperty_set 0 demoSim = Inr demoSim \<and>
   1 \<in> set (screens demoSim) \<and> 1 \<noteq> screenProperty demoSim \<and>
   \<not> isSettingPhetioState demoSim \<and>
   (\<exists>st'. screenProperty_set 1 demoSim = Inr st' \<and>
      screenProperty st' = 1 \<and>
      occursBefore (InterruptViewInput 0) (ViewSetVisible 1 True) (newEvents demoSim st') \<and>
      ResetTransform \<in> set (newEvents demoSim st') \<and>
      last (newEvents demoSim st') = ResetTransform)"
proof -
  have d: "screens demoSim = [0, 1, 2]" "screenProperty demoSim = 0"
    "\<not> isSettingPhetioState demoSim"
    by (simp_all add: demoSim_def)
  have m: "0 \<in> set (screens demoSim)" "1 \<in> set (screens demoSim)"
    by (simp_all add: d)
  show ?thesis
    using C7_screen_change [OF m(1)] C7_screen_change [OF m(2)]
    by (simp add: d)
qed

section \<open>Active and visible screens\<close>

text \<open>
  Claim C8. When \<open>finishInit\<close> links its listener, and after every change of the current
  screen, exactly the selected screen of the sim's screens is active and visible, the others
  are inactive and invisible; in particular, selecting the home screen leaves every other
  screen inactive. During a change that starts with no screen visible and inactive, no
  write of a screen's active flag changes the flag while that screen's view is visible.
\<close>

theorem C8_selected_screen_active:
  "(\<forall>s \<in> set (screens st).
      screenActive (screenListener (screenProperty st) st) s = (s = screenProperty st) \<and>
      viewVisible (screenListener (screenProperty st) st) s = (s = screenProperty st)) \<and>
   (newScreen \<in> set (screens st) \<and> newScreen \<noteq> screenProperty st \<and>
    (\<forall>s \<in> set (screens st). viewVisible st s \<longrightarrow> screenActive st s) \<longrightarrow>
      (\<exists>st'. screenProperty_set newScreen st = Inr st' \<and>
         screenProperty st' = newScreen \<and>
         screens st' = screens st \<and>
         (\<forall>s \<in> set (screens st).
            screenActive st' s = (s = newScreen) \<and> viewVisible st' s = (s = newScreen)) \<and>
         (homeScreen st = Some newScreen \<longrightarrow>
            (\<forall>s \<in> set (screens st). s \<noteq> newScreen \<longrightarrow> \<not> screenActive st' s)) \<and>
         (\<forall>e \<in> set (newEvents st st'). \<not> activeChangeWhileVisible e)))"
proof (intro conjI impI)
  show "\<forall>s \<in> set (screens st).
      screenActive (screenListener (screenProperty st) st) s = (s = screenProperty st) \<and>
      viewVisible (screenListener (screenProperty st) st) s = (s = screenProperty st)"
    by (simp add: screenListener_fields)
next
  assume a: "newScreen \<in> set (screens st) \<and> newScreen \<noteq> screenProperty st \<and>
    (\<forall>s \<in> set (screens st). viewVisible st s \<longrightarrow> screenActive st s)"
  then obtain st' where r: "screenProperty_set newScreen st = Inr st'"
    and t: "trace st' = trace st @
       [UpdateBackground newScreen, InterruptViewInput (screenProperty st)] @
       switchEventsAll newScreen (screens st) st @
       [UpdateBackground newScreen] @
       (if \<not> isSettingPhetioState st then [ResetTransform] else [])"
    and p: "screenProperty st' = newScreen" "screens st' = screens st"
    and f: "\<forall>s. screenActive st' s = (if s \<in> set (screens st) then s = newScreen else screenActive st s)"
      "\<forall>s. viewVisible st' s = (if s \<in> set (screens st) then s = newScreen else viewVisible st s)"
    using screenProperty_set_change [of newScreen st] by blast
  have n: "newEvents st st' =
       [UpdateBackground newScreen, InterruptViewInput (screenProperty st)] @
       switchEventsAll newScreen (screens st) st @
       [UpdateBackground newScreen] @
       (if \<not> isSettingPhetioState st then [ResetTransform] else [])"
    using t by (rule newEvents_append)
  have s: "\<forall>e \<in> set (switchEventsAll newScreen (screens st) st). \<not> activeChangeWhileVisible e"
    using a by (intro switchEventsAll_safe) simp
  have safe: "\<forall>e \<in> set (newEvents st st'). \<not> activeChangeWhileVisible e"
    unfolding n using s by auto
  have all: "\<forall>s \<in> set (screens st).
            screenActive st' s = (s = newScreen) \<and> viewVisible st' s = (s = newScreen)"
    using f by simp
  from r p all safe show "\<exists>st'. screenProperty_set newScreen st = Inr st' \<and>
         screenProperty st' = newScreen \<and>
         screens st' = screens st \<and>
         (\<forall>s \<in> set (screens st).
            screenActive st' s = (s = newScreen) \<and> viewVisible st' s = (s = newScreen)) \<and>
         (homeScreen st = Some newScreen \<longrightarrow>
            (\<forall>s \<in> set (screens st). s \<noteq> newScreen \<longrightarrow> \<not> screenActive st' s)) \<and>
         (\<forall>e \<in> set (newEvents st st'). \<not> activeChangeWhileVisible e)"
    by auto
qed

theorem C8_selected_screen_active_witness:
  "1 \<in> set (screens demoSim) \<and> 1 \<noteq> screenProperty demoSim \<and>
   screens demoSim = [0, 1, 2] \<and>
   viewVisible demoSim 0 \<and> screenActive demoSim 0 \<and>
   \<not> viewVisible demoSim 1 \<and> \<not> viewVisible demoSim 2 \<and>
   (\<exists>st'. screenProperty_set 1 demoSim = Inr st' \<and>
      screenProperty st' = 1 \<and>
      screenActive st' 1 \<and> \<not> screenActive st' 0 \<and> \<not> screenActive st' 2 \<and>
      viewVisible st' 1 \<and> \<not> viewVisible st' 0 \<and> \<not> viewVisible st' 2 \<and>
      (\<forall>e \<in> set (newEvents demoSim st'). \<not> activeChangeWhileVisible e)) \<and>
   0 \<in> set (screens (demoSim\<lparr>screenProperty := 2, screenActive := (\<lambda>s. s = 2),
                         viewVisible := (\<lambda>s. s = 2)\<rparr>)) \<and>
   homeScreen (demoSim\<lparr>screenProperty := 2, screenActive := (\<lambda>s. s = 2),
                 viewVisible := (\<lambda>s. s = 2)\<rparr>) = Some 0 \<and>
   (\<exists>st'. screenProperty_set 0 (demoSim\<lparr>screenProperty := 2, screenActive := (\<lambda>s. s = 2),
                                   viewVisible := (\<lambda>s. s = 2)\<rparr>) = Inr st' \<and>
      screenActive st' 0 \<and> \<not> screenActive st' 1 \<and> \<not> screenActive st' 2)"
proof -
  have d: "screens demoSim = [0, 1, 2]" "screenProperty demoSim = 0"
    "homeScreen demoSim = Some 0"
    "viewVisible demoSim = (\<lambda>s. s = 0)" "screenActive demoSim = (\<lambda>s. s = 0)"
    by (simp_all add: demoSim_def)
  show ?thesis
    using C8_selected_screen_active [of demoSim 1]
      C8_selected_screen_active [of "demoSim\<lparr>screenProperty := 2, screenActive := (\<lambda>s. s = 2),
                                   viewVisible := (\<lambda>s. s = 2)\<rparr>" 0]
    by (simp add: d) blast
qed

section \<open>Showing a popup\<close>

text \<open>
  Claim C9. With assertions on, \<open>showPopup\<close> fails an assertion when the popup is already
  a child of the top layer (the assertion \<open>popup already shown\<close>, for a popup that
  implements \<open>hide\<close>). Otherwise, for a modal popup, it returns and has made these calls
  in this order: the interrupt of all input on the root node, the push of the popup onto the
  modal stack, the popup's layout against the current screen bounds if the popup has a
  layout method, and the addition of the popup to the top layer; the popup is then last on
  the modal stack and last in the top layer, and the barrier is visible.
\<close>

theorem C9_showPopup_order:
  "(assertEnabled cfg \<and> topLayer_hasChild st p \<longrightarrow>
      (\<exists>msg. showPopup cfg p isModal st = Inl (AssertionFailed msg)) \<and>
      (hasHide p \<longrightarrow> showPopup cfg p isModal st = Inl (AssertionFailed ''popup already shown''))) \<and>
   (\<not> topLayer_hasChild st p \<and> (assertEnabled cfg \<longrightarrow> hasHide p) \<longrightarrow>
      (\<exists>st'. showPopup cfg p True st = Inr st' \<and>
         newEvents st st' =
           [InterruptRootInput, ModalPush p] @
           (if hasLayout p then [NodeLayout (PopupNode p) (screenBoundsProperty st)] else []) @
           [TopLayerAdd p] \<and>
         modalNodeStack st' = modalNodeStack st @ [p] \<and>
         topLayerChildren st' = topLayerChildren st @ [PopupNode p] \<and>
         barrierVisible st'))"
proof (intro conjI impI)
  assume "assertEnabled cfg \<and> topLayer_hasChild st p"
  then show "\<exists>msg. showPopup cfg p isModal st = Inl (AssertionFailed msg)"
    by (simp add: showPopup_def)
next
  assume "assertEnabled cfg \<and> topLayer_hasChild st p" and "hasHide p"
  then show "showPopup cfg p isModal st = Inl (AssertionFailed ''popup already shown'')"
    by (simp add: showPopup_def)
next
  assume "\<not> topLayer_hasChild st p \<and> (assertEnabled cfg \<longrightarrow> hasHide p)"
  then obtain st' where s: "showPopup cfg p True st = Inr st'"
    and t: "trace st' = trace st @
       (if True then [InterruptRootInput, ModalPush p] else []) @
       (if hasLayout p then [NodeLayout (PopupNode p) (screenBoundsProperty st)] else []) @
       [TopLayerAdd p]"
    and f: "modalNodeStack st' = (if True then modalNodeStack st @ [p] else modalNodeStack st)"
      "barrierVisible st' = (if True then True else barrierVisible st)"
      "topLayerChildren st' = topLayerChildren st @ [PopupNode p]"
    using showPopup_ok [of st p cfg True] by blast
  have "newEvents st st' =
       (if True then [InterruptRootInput, ModalPush p] else []) @
       (if hasLayout p then [NodeLayout (PopupNode p) (screenBoundsProperty st)] else []) @
       [TopLayerAdd p]"
    using t by (rule newEvents_append)
  with s f show "\<exists>st'. showPopup cfg p True st = Inr st' \<and>
         newEvents st st' =
           [InterruptRootInput, ModalPush p] @
           (if hasLayout p then [NodeLayout (PopupNode p) (screenBoundsProperty st)] else []) @
           [TopLayerAdd p] \<and>
         modalNodeStack st' = modalNodeStack st @ [p] \<and>
         topLayerChildren st' = topLayerChildren st @ [PopupNode p] \<and>
         barrierVisible st'"
    by simp
qed

theorem C9_showPopup_order_witness:
  "assertEnabled demoConfig \<and>
   topLayer_hasChild (demoLaidOut\<lparr>topLayerChildren := [BarrierNode, PopupNode popupA]\<rparr>) popupA \<and>
   hasHide popupA \<and>
   showPopup demoConfig popupA True
     (demoLaidOut\<lparr>topLayerChildren := [BarrierNode, PopupNode popupA]\<rparr>) =
     Inl (AssertionFailed ''popup already shown'') \<and>
   \<not> topLayer_hasChild demoLaidOut popupA \<and>
   (\<exists>st'. showPopup demoConfig popupA True demoLaidOut = Inr st' \<and>
      newEvents demoLaidOut st' =
        [InterruptRootInput, ModalPush popupA,
         NodeLayout (PopupNode popupA) (Some (Bounds2 0 0 1024 (2144 / 3))),
         TopLayerAdd popupA] \<and>
      modalNodeStack st' = [popupA] \<and>
      topLayerChildren st' = [BarrierNode, PopupNode popupA] \<and>
      barrierVisible st')"
proof -
  have c: "assertEnabled demoConfig" by (simp add: demoConfig_def)
  have a: "hasHide popupA" "hasLayout popupA" by (simp_all add: popupA_def)
  have h: "topLayer_hasChild (demoLaidOut\<lparr>topLayerChildren := [BarrierNode, PopupNode popupA]\<rparr>) popupA"
    "\<not> topLayer_hasChild demoLaidOut popupA"
    by (simp_all add: topLayer_hasChild_def demoLaidOut_fields)
  show ?thesis
    using C9_showPopup_order [where cfg = demoConfig and p = popupA and isModal = True
        and st = "demoLaidOut\<lparr>topLayerChildren := [BarrierNode, PopupNode popupA]\<rparr>"]
      C9_showPopup_order [where cfg = demoConfig and p = popupA and st = demoLaidOut]
    by (simp add: c a h demoLaidOut_fields)
qed

section \<open>The barrier and the modal stack\<close>

text \<open>
  Claim C10. Starting from the empty modal stack and the invisible barrier that
  \<open>finishInit\<close> sets up, after every sequence of \<open>showPopup\<close> and \<open>hidePopup\<close> calls that
  returns, the barrier is visible if and only if the modal stack is not empty. In
  particular, for two different popups that are not shown yet, after showing the first
  and the second as modal and hiding the second, the modal stack holds the first alone
  and the barrier is visible; hiding the first then empties the stack and makes the
  barrier invisible.
\<close>

theorem C10_barrier_follows_modal_stack:
  assumes "modalNodeStack st = []" and "\<not> barrierVisible st"
  shows "(\<forall>calls st'. runPopupCalls cfg calls st = Inr st' \<longrightarrow>
            barrierVisible st' = (modalNodeStack st' \<noteq> [])) \<and>
         (a \<noteq> b \<and> hasHide a \<and> hasHide b \<and>
          \<not> topLayer_hasChild st a \<and> \<not> topLayer_hasChild st b \<longrightarrow>
            (\<exists>st3 st4.
               runPopupCalls cfg [Show a True, Show b True, Hide b True] st = Inr st3 \<and>
               modalNodeStack st3 = [a] \<and> barrierVisible st3 \<and>
               hidePopup cfg a True st3 = Inr st4 \<and>
               modalNodeStack st4 = [] \<and> \<not> barrierVisible st4))"
proof (intro conjI allI impI)
  fix calls st'
  assume "runPopupCalls cfg calls st = Inr st'"
  moreover have "barrierVisible st = (modalNodeStack st \<noteq> [])"
    using assms by simp
  ultimately show "barrierVisible st' = (modalNodeStack st' \<noteq> [])"
    by (rule runPopupCalls_barrier)
next
  assume h: "a \<noteq> b \<and> hasHide a \<and> hasHide b \<and>
          \<not> topLayer_hasChild st a \<and> \<not> topLayer_hasChild st b"
  obtain st1 where s1: "showPopup cfg a True st = Inr st1"
    and m1: "modalNodeStack st1 = [a]"
    and c1: "topLayerChildren st1 = topLayerChildren st @ [PopupNode a]"
    using showPopup_ok [of st a cfg True] h assms by auto
  have n1: "\<not> topLayer_hasChild st1 b"
    using h by (auto simp add: topLayer_hasChild_def c1)
  obtain st2 where s2: "showPopup cfg b True st1 = Inr st2"
    and m2: "modalNodeStack st2 = [a, b]"
    and c2: "topLayerChildren st2 = topLayerChildren st @ [PopupNode a, PopupNode b]"
    using showPopup_ok [of st1 b cfg True] h n1 by (auto simp add: m1 c1)
  have i2: "topLayer_hasChild st2 b" "b \<in> set (modalNodeStack st2)"
    by (simp_all add: topLayer_hasChild_def c2 m2)
  obtain st3 where s3: "hidePopup cfg b True st2 = Inr st3"
    and m3: "modalNodeStack st3 = [a]"
    and v3: "barrierVisible st3"
    and c3: "topLayerChildren st3 = topLayerChildren st @ [PopupNode a]"
    using hidePopup_ok [OF i2, of cfg True] h
    by (auto simp add: m2 c2 topLayer_hasChild_def remove1_append)
  have i3: "topLayer_hasChild st3 a" "a \<in> set (modalNodeStack st3)"
    by (simp_all add: topLayer_hasChild_def c3 m3)
  obtain st4 where s4: "hidePopup cfg a True st3 = Inr st4"
    and m4: "modalNodeStack st4 = []"
    and v4: "\<not> barrierVisible st4"
    using hidePopup_ok [OF i3, of cfg True] by (auto simp add: m3)
  have "runPopupCalls cfg [Show a True, Show b True, Hide b True] st = Inr st3"
    by (simp add: s1 s2 s3)
  with m3 v3 s4 m4 v4 show "\<exists>st3 st4.
               runPopupCalls cfg [Show a True, Show b True, Hide b True] st = Inr st3 \<and>
               modalNodeStack st3 = [a] \<and> barrierVisible st3 \<and>
               hidePopup cfg a True st3 = Inr st4 \<and>
               modalNodeStack st4 = [] \<and> \<not> barrierVisible st4"
    by blast
qed

theorem C10_barrier_follows_modal_stack_witness:
  "modalNodeStack demoLaidOut = [] \<and> \<not> barrierVisible demoLaidOut \<and>
   popupA \<noteq> popupB \<and> hasHide popupA \<and> hasHide popupB \<and>
   \<not> topLayer_hasChild demoLaidOut popupA \<and> \<not> topLayer_hasChild demoLaidOut popupB \<and>
   (\<exists>st3 st4.
      runPopupCalls demoConfig [Show popupA True, Show popupB True, Hide popupB True] demoLaidOut =
        Inr st3 \<and>
      barrierVisible st3 = (modalNodeStack st3 \<noteq> []) \<and>
      modalNodeStack st3 = [popupA] \<and> barrierVisible st3 \<and>
      hidePopup demoConfig popupA True st3 = Inr st4 \<and>
      modalNodeStack st4 = [] \<and> \<not> barrierVisible st4)"
proof -
  have i: "modalNodeStack demoLaidOut = []" "\<not> barrierVisible demoLaidOut"
    by (simp_all add: demoLaidOut_fields)
  have p: "popupA \<noteq> popupB" "hasHide popupA" "hasHide popupB"
    by (simp_all add: popupA_def popupB_def)
  have h: "\<not> topLayer_hasChild demoLaidOut popupA" "\<not> topLayer_hasChild demoLaidOut popupB"
    by (simp_all add: topLayer_hasChild_def demoLaidOut_fields)
  show ?thesis
    using C10_barrier_follows_modal_stack [OF i, of demoConfig popupA popupB] i p h
    by auto
qed

end
